theory Spec2Isabelle
  imports Complex_Main
begin

section \<open>Python values used by the trading bot\<close>

text \<open>
  The bot (\<^verbatim>\<open>src/bot.py\<close>, class \<^verbatim>\<open>BasicBot\<close>) handles quantities and prices as Python
  floats, reads them out of JSON dictionaries, and snaps them with \<^verbatim>\<open>decimal.Decimal\<close>.

  A Python float is modelled by the decimal number that \<^verbatim>\<open>str\<close> prints for it: digits
  \<open>mant\<close> and a power of ten \<open>expn\<close>, standing for \<open>mant * 10 ^ expn\<close>. Python prints the
  shortest decimal that reads back as the same float, so distinct floats print distinct
  decimals in the same order, and comparing floats is comparing these decimals. The model
  is exact for values of at most 15 significant digits inside the range of a double; it
  has no infinities, no NaN, and no loss of digits beyond the 17th.
\<close>

datatype pyfloat = Float (mant: int) (expn: int)

definition float_val :: "pyfloat \<Rightarrow> rat" where
  "float_val x = of_int (mant x) * 10 powi (expn x)"

definition float_lt :: "pyfloat \<Rightarrow> pyfloat \<Rightarrow> bool" where
  \<comment> \<open>\<^verbatim>\<open>x < y\<close> on floats\<close>
  "float_lt x y = (float_val x < float_val y)"

definition float_gt :: "pyfloat \<Rightarrow> pyfloat \<Rightarrow> bool" where
  \<comment> \<open>\<^verbatim>\<open>x > y\<close> on floats\<close>
  "float_gt x y = (float_val y < float_val x)"

definition float_truthy :: "pyfloat \<Rightarrow> bool" where
  \<comment> \<open>\<^verbatim>\<open>bool(x)\<close>, also \<^verbatim>\<open>x != 0\<close>: a float is falsy exactly when it is zero\<close>
  "float_truthy x = (mant x \<noteq> 0)"

text \<open>
  A message is the list of the pieces of an f-string: literal text and interpolated
  floats, in order.
\<close>

datatype msg_part = Lit string | Num pyfloat

type_synonym message = "msg_part list"

datatype error =
    KeyError string
  | ValueError message
  | TypeError
  | InvalidOperation
  | BinanceAPIException int string
  | BinanceOrderException int string

text \<open>
  JSON values as the exchange client hands them over, and dictionaries of them. The
  exchange sends numbers as strings (\<^verbatim>\<open>"0.001"\<close>).
\<close>

datatype jval = JNone | JBool bool | JInt int | JFloat pyfloat | JStr string

type_synonym jdict = "string \<rightharpoonup> jval"

definition getitem :: "jdict \<Rightarrow> string \<Rightarrow> error + jval" where
  \<comment> \<open>\<^verbatim>\<open>d[k]\<close>\<close>
  "getitem d k = (case d k of None \<Rightarrow> Inl (KeyError k) | Some v \<Rightarrow> Inr v)"

definition get_or :: "jdict \<Rightarrow> string \<Rightarrow> jval \<Rightarrow> jval" where
  \<comment> \<open>\<^verbatim>\<open>d.get(k, default)\<close>\<close>
  "get_or d k dflt = (case d k of None \<Rightarrow> dflt | Some v \<Rightarrow> v)"

definition truthy :: "jval \<Rightarrow> bool" where
  "truthy v = (case v of JNone \<Rightarrow> False | JBool b \<Rightarrow> b | JInt n \<Rightarrow> n \<noteq> 0
     | JFloat x \<Rightarrow> float_truthy x | JStr s \<Rightarrow> s \<noteq> [])"

definition bind_err :: "error + 'a \<Rightarrow> ('a \<Rightarrow> error + 'b) \<Rightarrow> error + 'b" where
  \<comment> \<open>run the next statement unless the previous one raised\<close>
  "bind_err r f = (case r of Inl e \<Rightarrow> Inl e | Inr x \<Rightarrow> f x)"

subsection \<open>Reading numbers from strings\<close>

text \<open>
  \<^verbatim>\<open>float(s)\<close> on a string: surrounding whitespace, an optional sign, digits with an
  optional fraction (at least one digit in all), an optional exponent. Anything else
  raises \<^verbatim>\<open>ValueError\<close>. The words \<^verbatim>\<open>inf\<close> and \<^verbatim>\<open>nan\<close> and digit groups with underscores,
  which Python also reads, are outside the model.
\<close>

definition is_digit :: "char \<Rightarrow> bool" where
  "is_digit c = (c \<in> set ''0123456789'')"

definition is_space :: "char \<Rightarrow> bool" where
  "is_space c = (c \<in> set [CHR '' '', CHR 0x09, CHR 0x0A, CHR 0x0B, CHR 0x0C, CHR 0x0D])"

definition digit_val :: "char \<Rightarrow> int" where
  "digit_val c = int (of_char c) - 48"

definition digits_val :: "string \<Rightarrow> int" where
  "digits_val ds = foldl (\<lambda>a c. 10 * a + digit_val c) 0 ds"

definition strip_space :: "string \<Rightarrow> string" where
  "strip_space s = rev (dropWhile is_space (rev (dropWhile is_space s)))"

definition split_sign :: "string \<Rightarrow> int \<times> string" where
  "split_sign s = (case s of [] \<Rightarrow> (1, [])
     | c # cs \<Rightarrow> if c = CHR ''-'' then (-1, cs) else if c = CHR ''+'' then (1, cs) else (1, s))"

definition int_of_digits :: "string \<Rightarrow> int option" where
  \<comment> \<open>an optional sign and one or more digits, nothing else\<close>
  "int_of_digits s = (let (sg, ds) = split_sign s in
     if ds \<noteq> [] \<and> list_all is_digit ds then Some (sg * digits_val ds) else None)"

definition float_of_string :: "string \<Rightarrow> pyfloat option" where
  "float_of_string s =
    (let (sg, s1) = split_sign (strip_space s);
         ip = takeWhile is_digit s1;
         r1 = dropWhile is_digit s1;
         fp = (case r1 of [] \<Rightarrow> [] | c # cs \<Rightarrow> if c = CHR ''.'' then takeWhile is_digit cs else []);
         r2 = (case r1 of [] \<Rightarrow> [] | c # cs \<Rightarrow> if c = CHR ''.'' then dropWhile is_digit cs else r1);
         m = sg * digits_val (ip @ fp)
     in if ip = [] \<and> fp = [] then None
        else case r2 of
          [] \<Rightarrow> Some (Float m (- int (length fp)))
        | c # cs \<Rightarrow>
            if c = CHR ''e'' \<or> c = CHR ''E'' then
              (case int_of_digits cs of None \<Rightarrow> None
               | Some x \<Rightarrow> Some (Float m (x - int (length fp))))
            else None)"

definition py_float :: "jval \<Rightarrow> error + pyfloat" where
  \<comment> \<open>\<^verbatim>\<open>float(v)\<close>\<close>
  "py_float v = (case v of
       JNone \<Rightarrow> Inl TypeError
     | JBool b \<Rightarrow> Inr (Float (if b then 1 else 0) 0)
     | JInt n \<Rightarrow> Inr (Float n 0)
     | JFloat x \<Rightarrow> Inr x
     | JStr s \<Rightarrow> (case float_of_string s of
           None \<Rightarrow> Inl (ValueError [Lit ''could not convert string to float: '', Lit s])
         | Some x \<Rightarrow> Inr x))"

subsection \<open>Decimal and quantize\<close>

text \<open>
  A \<^verbatim>\<open>decimal.Decimal\<close> is a coefficient and an exponent; unlike a float it keeps its
  trailing zeros, and \<^verbatim>\<open>quantize\<close> reads only the exponent of its argument.
\<close>

datatype decimal = Decimal (coeff: int) (expo: int)

definition dec_val :: "decimal \<Rightarrow> rat" where
  "dec_val d = of_int (coeff d) * 10 powi (expo d)"

fun ndigits_nat :: "nat \<Rightarrow> nat" where
  "ndigits_nat n = (if n < 10 then 1 else Suc (ndigits_nat (n div 10)))"

definition ndigits :: "int \<Rightarrow> nat" where
  \<comment> \<open>the number of decimal digits of the coefficient\<close>
  "ndigits c = ndigits_nat (nat \<bar>c\<bar>)"

function strip_zeros :: "int \<Rightarrow> int \<Rightarrow> int \<times> int" where
  "strip_zeros m e = (if m \<noteq> 0 \<and> m mod 10 = 0 then strip_zeros (m div 10) (e + 1) else (m, e))"
  by pat_completeness auto
termination
  by (relation "measure (\<lambda>(m, e). nat \<bar>m\<bar>)") auto

definition decimal_of_str :: "pyfloat \<Rightarrow> decimal" where
  \<comment> \<open>\<^verbatim>\<open>Decimal(str(x))\<close>. \<^verbatim>\<open>str\<close> prints the digits without trailing zeros; in exponent
      notation (\<^verbatim>\<open>1e-05\<close>, \<^verbatim>\<open>1e+16\<close>) when the decimal point would sit more than 16 places
      right or 4 or more places left of the first digit, and otherwise in positional
      notation, where a whole number gets \<^verbatim>\<open>.0\<close> appended (\<^verbatim>\<open>1.0\<close>, \<^verbatim>\<open>1000.0\<close>).\<close>
  "decimal_of_str x =
    (let (m, e) = strip_zeros (mant x) (expn x);
         decpt = int (ndigits m) + e
     in if m = 0 then Decimal 0 (-1)
        else if decpt \<le> -4 \<or> decpt > 16 then Decimal m e
        else if e \<ge> 0 then Decimal (m * 10 ^ nat (e + 1)) (-1)
        else Decimal m e)"

definition float_of_decimal :: "decimal \<Rightarrow> pyfloat" where
  \<comment> \<open>\<^verbatim>\<open>float(d)\<close>\<close>
  "float_of_decimal d = Float (coeff d) (expo d)"

definition trunc_div :: "int \<Rightarrow> int \<Rightarrow> int" where
  \<comment> \<open>division rounding toward zero (\<^verbatim>\<open>ROUND_DOWN\<close>)\<close>
  "trunc_div c d = (if c \<ge> 0 then c div d else - ((- c) div d))"

definition quantize_round_down :: "decimal \<Rightarrow> decimal \<Rightarrow> error + decimal" where
  \<comment> \<open>\<^verbatim>\<open>a.quantize(b, rounding=ROUND_DOWN)\<close> in the default context (28 digits,
      \<^verbatim>\<open>Emax = 999999\<close>, \<^verbatim>\<open>Etiny = -1000026\<close>, \<^verbatim>\<open>InvalidOperation\<close> trapped): the result
      has the exponent of \<open>b\<close>; the digits of \<open>b\<close> play no part.\<close>
  "quantize_round_down a b =
    (let t = expo b in
     if t < -1000026 \<or> t > 999999 then Inl InvalidOperation
     else if coeff a = 0 then Inr (Decimal 0 t)
     else if int (ndigits (coeff a)) + expo a - 1 > 999999 then Inl InvalidOperation
     else if int (ndigits (coeff a)) + expo a - t > 28 then Inl InvalidOperation
     else if t \<le> expo a then Inr (Decimal (coeff a * 10 ^ nat (expo a - t)) t)
     else Inr (Decimal (trunc_div (coeff a) (10 ^ nat (t - expo a))) t))"

section \<open>The exchange client and the bot\<close>

text \<open>
  The exchange client is outside the repository. Its answers are functions of the
  calls made so far, so that it may answer the same request differently over time;
  an \<open>Inl\<close> answer is the exception the call raises. The bot records each remote call.
\<close>

record symbol_info =
  info_symbol :: string
  info_filters :: "jdict list option"

datatype remote_call =
    ExchangeInfo
  | CreateOrder jdict
  | ChangeLeverage string int
  | PositionInformation

record client =
  futures_exchange_info :: "remote_call list \<Rightarrow> error + symbol_info list"
  futures_create_order :: "remote_call list \<Rightarrow> jdict \<Rightarrow> error + jdict"
  futures_change_leverage :: "remote_call list \<Rightarrow> string \<Rightarrow> int \<Rightarrow> error + jdict"
  futures_position_information :: "remote_call list \<Rightarrow> error + jdict list"

record bot =
  bot_client :: client
  symbol_info_cache :: "string \<rightharpoonup> symbol_info"
  calls :: "remote_call list"

definition get_symbol_info :: "bot \<Rightarrow> string \<Rightarrow> (error + symbol_info) \<times> bot" where
  "get_symbol_info b symbol =
    (case symbol_info_cache b symbol of
       Some s \<Rightarrow> (Inr s, b)
     | None \<Rightarrow>
        (let b1 = b\<lparr>calls := calls b @ [ExchangeInfo]\<rparr> in
         case futures_exchange_info (bot_client b) (calls b) of
           Inl e \<Rightarrow> (Inl e, b1)
         | Inr syms \<Rightarrow>
            (case find (\<lambda>s. info_symbol s = symbol) syms of
               Some s \<Rightarrow> (Inr s, b1\<lparr>symbol_info_cache := (symbol_info_cache b1)(symbol \<mapsto> s)\<rparr>)
             | None \<Rightarrow> (Inl (ValueError [Lit ''Symbol '', Lit symbol, Lit '' not found'']), b1))))"

section \<open>Validating quantity and price\<close>

definition check_lot_size :: "jdict \<Rightarrow> pyfloat \<Rightarrow> error + (bool \<times> message \<times> pyfloat)" where
  \<comment> \<open>the body run for the \<^verbatim>\<open>LOT_SIZE\<close> filter\<close>
  "check_lot_size filter_item quantity =
    bind_err (bind_err (getitem filter_item ''minQty'') py_float) (\<lambda>min_qty.
    bind_err (bind_err (getitem filter_item ''maxQty'') py_float) (\<lambda>max_qty.
    bind_err (bind_err (getitem filter_item ''stepSize'') py_float) (\<lambda>step_size.
      if float_lt quantity min_qty then
        Inr (False, [Lit ''Quantity '', Num quantity, Lit '' below minimum '', Num min_qty], quantity)
      else if float_gt quantity max_qty then
        Inr (False, [Lit ''Quantity '', Num quantity, Lit '' above maximum '', Num max_qty], quantity)
      else
        bind_err (quantize_round_down (decimal_of_str quantity) (decimal_of_str step_size))
          (\<lambda>d. Inr (True, [Lit ''Valid''], float_of_decimal d)))))"

fun lot_size_loop :: "jdict list \<Rightarrow> pyfloat \<Rightarrow> error + (bool \<times> message \<times> pyfloat)" where
  "lot_size_loop [] quantity = Inr (True, [Lit ''No LOT_SIZE filter found''], quantity)"
| "lot_size_loop (filter_item # rest) quantity =
    bind_err (getitem filter_item ''filterType'') (\<lambda>t.
      if t = JStr ''LOT_SIZE'' then check_lot_size filter_item quantity
      else lot_size_loop rest quantity)"

definition validate_quantity_try ::
    "bot \<Rightarrow> string \<Rightarrow> pyfloat \<Rightarrow> (error + (bool \<times> message \<times> pyfloat)) \<times> bot" where
  \<comment> \<open>the \<^verbatim>\<open>try\<close> block of \<^verbatim>\<open>_validate_quantity\<close>\<close>
  "validate_quantity_try b symbol quantity =
    (case get_symbol_info b symbol of
       (Inl e, b1) \<Rightarrow> (Inl e, b1)
     | (Inr info, b1) \<Rightarrow>
        (case info_filters info of
           None \<Rightarrow> (Inl (KeyError ''filters''), b1)
         | Some fs \<Rightarrow> (lot_size_loop fs quantity, b1)))"

definition validate_quantity ::
    "bot \<Rightarrow> string \<Rightarrow> pyfloat \<Rightarrow> (bool \<times> message \<times> pyfloat) \<times> bot" where
  "validate_quantity b symbol quantity =
    (case validate_quantity_try b symbol quantity of
       (Inl e, b1) \<Rightarrow> ((True, [Lit ''Validation skipped''], quantity), b1)
     | (Inr r, b1) \<Rightarrow> (r, b1))"

definition check_price_filter :: "jdict \<Rightarrow> pyfloat \<Rightarrow> error + (bool \<times> message \<times> pyfloat)" where
  \<comment> \<open>the body run for the \<^verbatim>\<open>PRICE_FILTER\<close> filter\<close>
  "check_price_filter filter_item price =
    bind_err (bind_err (getitem filter_item ''minPrice'') py_float) (\<lambda>min_price.
    bind_err (bind_err (getitem filter_item ''maxPrice'') py_float) (\<lambda>max_price.
    bind_err (bind_err (getitem filter_item ''tickSize'') py_float) (\<lambda>tick_size.
      if float_lt price min_price then
        Inr (False, [Lit ''Price '', Num price, Lit '' below minimum '', Num min_price], price)
      else if float_gt max_price (Float 0 0) \<and> float_gt price max_price then
        Inr (False, [Lit ''Price '', Num price, Lit '' above maximum '', Num max_price], price)
      else
        bind_err (quantize_round_down (decimal_of_str price) (decimal_of_str tick_size))
          (\<lambda>d. Inr (True, [Lit ''Valid''], float_of_decimal d)))))"

fun price_filter_loop :: "jdict list \<Rightarrow> pyfloat \<Rightarrow> error + (bool \<times> message \<times> pyfloat)" where
  "price_filter_loop [] price = Inr (True, [Lit ''No PRICE_FILTER found''], price)"
| "price_filter_loop (filter_item # rest) price =
    bind_err (getitem filter_item ''filterType'') (\<lambda>t.
      if t = JStr ''PRICE_FILTER'' then check_price_filter filter_item price
      else price_filter_loop rest price)"

definition validate_price_try ::
    "bot \<Rightarrow> string \<Rightarrow> pyfloat \<Rightarrow> (error + (bool \<times> message \<times> pyfloat)) \<times> bot" where
  \<comment> \<open>the \<^verbatim>\<open>try\<close> block of \<^verbatim>\<open>_validate_price\<close>\<close>
  "validate_price_try b symbol price =
    (case get_symbol_info b symbol of
       (Inl e, b1) \<Rightarrow> (Inl e, b1)
     | (Inr info, b1) \<Rightarrow>
        (case info_filters info of
           None \<Rightarrow> (Inl (KeyError ''filters''), b1)
         | Some fs \<Rightarrow> (price_filter_loop fs price, b1)))"

definition validate_price ::
    "bot \<Rightarrow> string \<Rightarrow> pyfloat \<Rightarrow> (bool \<times> message \<times> pyfloat) \<times> bot" where
  "validate_price b symbol price =
    (case validate_price_try b symbol price of
       (Inl e, b1) \<Rightarrow> ((True, [Lit ''Validation skipped''], price), b1)
     | (Inr r, b1) \<Rightarrow> (r, b1))"

section \<open>Formatting the exchange's order record\<close>

definition format_order_response :: "jdict \<Rightarrow> error + jdict" where
  "format_order_response order =
    bind_err (py_float (get_or order ''price'' (JInt 0))) (\<lambda>price.
    bind_err (py_float (get_or order ''origQty'' (JInt 0))) (\<lambda>quantity.
    bind_err (py_float (get_or order ''executedQty'' (JInt 0))) (\<lambda>executed_qty.
    bind_err (py_float (get_or order ''avgPrice'' (JInt 0))) (\<lambda>avg_price.
    bind_err (if truthy (get_or order ''stopPrice'' JNone)
              then bind_err (py_float (get_or order ''stopPrice'' (JInt 0))) (\<lambda>x. Inr (JFloat x))
              else Inr JNone) (\<lambda>stop_price.
      Inr [''order_id'' \<mapsto> get_or order ''orderId'' JNone,
           ''client_order_id'' \<mapsto> get_or order ''clientOrderId'' JNone,
           ''symbol'' \<mapsto> get_or order ''symbol'' JNone,
           ''side'' \<mapsto> get_or order ''side'' JNone,
           ''type'' \<mapsto> get_or order ''type'' JNone,
           ''status'' \<mapsto> get_or order ''status'' JNone,
           ''price'' \<mapsto> JFloat price,
           ''quantity'' \<mapsto> JFloat quantity,
           ''executed_qty'' \<mapsto> JFloat executed_qty,
           ''avg_price'' \<mapsto> JFloat avg_price,
           ''stop_price'' \<mapsto> stop_price,
           ''time_in_force'' \<mapsto> get_or order ''timeInForce'' JNone,
           ''reduce_only'' \<mapsto> get_or order ''reduceOnly'' (JBool False),
           ''close_position'' \<mapsto> get_or order ''closePosition'' (JBool False),
           ''working_type'' \<mapsto> get_or order ''workingType'' JNone,
           ''update_time'' \<mapsto> get_or order ''updateTime'' JNone])))))"

section \<open>Placing orders\<close>

datatype OrderSide = BUY | SELL

definition side_value :: "OrderSide \<Rightarrow> string" where
  "side_value side = (case side of BUY \<Rightarrow> ''BUY'' | SELL \<Rightarrow> ''SELL'')"

definition submit_order :: "bot \<Rightarrow> jdict \<Rightarrow> (error + jdict) \<times> bot" where
  \<comment> \<open>the \<^verbatim>\<open>try\<close> block every \<^verbatim>\<open>place_*\<close> method ends with: the remote call
      \<^verbatim>\<open>futures_create_order\<close>, the arguments of \<^verbatim>\<open>log_order_result\<close>, the formatter;
      an exception of the client is logged and raised again\<close>
  "submit_order b params =
    (bind_err (futures_create_order (bot_client b) (calls b) params) (\<lambda>order.
       bind_err (getitem order ''orderId'') (\<lambda>_.
       bind_err (getitem order ''status'') (\<lambda>_.
       bind_err (py_float (get_or order ''executedQty'' (JInt 0))) (\<lambda>_.
       bind_err (py_float (get_or order ''avgPrice'' (JInt 0))) (\<lambda>_.
         format_order_response order))))),
     b\<lparr>calls := calls b @ [CreateOrder params]\<rparr>)"

definition place_market_order ::
    "bot \<Rightarrow> string \<Rightarrow> OrderSide \<Rightarrow> pyfloat \<Rightarrow> bool \<Rightarrow> (error + jdict) \<times> bot" where
  "place_market_order b symbol side quantity reduce_only =
    (case validate_quantity b symbol quantity of ((is_valid, msg, adjusted_qty), b1) \<Rightarrow>
     if \<not> is_valid then (Inl (ValueError msg), b1)
     else submit_order b1
       [''symbol'' \<mapsto> JStr symbol, ''side'' \<mapsto> JStr (side_value side),
        ''type'' \<mapsto> JStr ''MARKET'', ''quantity'' \<mapsto> JFloat adjusted_qty,
        ''reduceOnly'' \<mapsto> JBool reduce_only])"

definition place_limit_order ::
    "bot \<Rightarrow> string \<Rightarrow> OrderSide \<Rightarrow> pyfloat \<Rightarrow> pyfloat \<Rightarrow> string \<Rightarrow> bool
      \<Rightarrow> (error + jdict) \<times> bot" where
  "place_limit_order b symbol side quantity price time_in_force reduce_only =
    (case validate_quantity b symbol quantity of ((is_valid, msg, adjusted_qty), b1) \<Rightarrow>
     if \<not> is_valid then (Inl (ValueError msg), b1)
     else case validate_price b1 symbol price of ((is_valid, msg, adjusted_price), b2) \<Rightarrow>
     if \<not> is_valid then (Inl (ValueError msg), b2)
     else submit_order b2
       [''symbol'' \<mapsto> JStr symbol, ''side'' \<mapsto> JStr (side_value side),
        ''type'' \<mapsto> JStr ''LIMIT'', ''quantity'' \<mapsto> JFloat adjusted_qty,
        ''price'' \<mapsto> JFloat adjusted_price, ''timeInForce'' \<mapsto> JStr time_in_force,
        ''reduceOnly'' \<mapsto> JBool reduce_only])"

definition place_stop_limit_order ::
    "bot \<Rightarrow> string \<Rightarrow> OrderSide \<Rightarrow> pyfloat \<Rightarrow> pyfloat \<Rightarrow> pyfloat \<Rightarrow> string \<Rightarrow> bool
      \<Rightarrow> (error + jdict) \<times> bot" where
  "place_stop_limit_order b symbol side quantity price stop_price time_in_force reduce_only =
    (case validate_quantity b symbol quantity of ((is_valid, msg, adjusted_qty), b1) \<Rightarrow>
     if \<not> is_valid then (Inl (ValueError msg), b1)
     else case validate_price b1 symbol price of ((is_valid, msg, adjusted_price), b2) \<Rightarrow>
     if \<not> is_valid then (Inl (ValueError msg), b2)
     else case validate_price b2 symbol stop_price of ((is_valid, msg, adjusted_stop), b3) \<Rightarrow>
     if \<not> is_valid then (Inl (ValueError msg), b3)
     else submit_order b3
       [''symbol'' \<mapsto> JStr symbol, ''side'' \<mapsto> JStr (side_value side),
        ''type'' \<mapsto> JStr ''STOP'', ''quantity'' \<mapsto> JFloat adjusted_qty,
        ''price'' \<mapsto> JFloat adjusted_price, ''stopPrice'' \<mapsto> JFloat adjusted_stop,
        ''timeInForce'' \<mapsto> JStr time_in_force, ''reduceOnly'' \<mapsto> JBool reduce_only])"

definition place_stop_market_order ::
    "bot \<Rightarrow> string \<Rightarrow> OrderSide \<Rightarrow> pyfloat \<Rightarrow> pyfloat \<Rightarrow> bool \<Rightarrow> (error + jdict) \<times> bot" where
  "place_stop_market_order b symbol side quantity stop_price reduce_only =
    (case validate_quantity b symbol quantity of ((is_valid, msg, adjusted_qty), b1) \<Rightarrow>
     if \<not> is_valid then (Inl (ValueError msg), b1)
     else case validate_price b1 symbol stop_price of ((is_valid, msg, adjusted_stop), b2) \<Rightarrow>
     if \<not> is_valid then (Inl (ValueError msg), b2)
     else submit_order b2
       [''symbol'' \<mapsto> JStr symbol, ''side'' \<mapsto> JStr (side_value side),
        ''type'' \<mapsto> JStr ''STOP_MARKET'', ''quantity'' \<mapsto> JFloat adjusted_qty,
        ''stopPrice'' \<mapsto> JFloat adjusted_stop, ''reduceOnly'' \<mapsto> JBool reduce_only])"

definition if_price :: "pyfloat option \<Rightarrow> pyfloat option" where
  \<comment> \<open>the test \<^verbatim>\<open>if price:\<close> on an optional float: \<^verbatim>\<open>None\<close> and zero are falsy\<close>
  "if_price price = (case price of None \<Rightarrow> None
     | Some p \<Rightarrow> if float_truthy p then Some p else None)"

definition place_take_profit_order ::
    "bot \<Rightarrow> string \<Rightarrow> OrderSide \<Rightarrow> pyfloat \<Rightarrow> pyfloat \<Rightarrow> pyfloat option \<Rightarrow> bool
      \<Rightarrow> (error + jdict) \<times> bot" where
  "place_take_profit_order b symbol side quantity stop_price price reduce_only =
    (case validate_quantity b symbol quantity of ((is_valid, msg, adjusted_qty), b1) \<Rightarrow>
     if \<not> is_valid then (Inl (ValueError msg), b1)
     else case validate_price b1 symbol stop_price of ((is_valid, msg, adjusted_stop), b2) \<Rightarrow>
     if \<not> is_valid then (Inl (ValueError msg), b2)
     else
       let params =
         [''symbol'' \<mapsto> JStr symbol, ''side'' \<mapsto> JStr (side_value side),
          ''type'' \<mapsto> JStr ''TAKE_PROFIT_MARKET'', ''quantity'' \<mapsto> JFloat adjusted_qty,
          ''stopPrice'' \<mapsto> JFloat adjusted_stop, ''reduceOnly'' \<mapsto> JBool reduce_only]
       in (case if_price price of
            None \<Rightarrow> submit_order b2 params
          | Some p \<Rightarrow>
             (case validate_price b2 symbol p of ((is_valid, msg, adjusted_price), b3) \<Rightarrow>
              if \<not> is_valid then (Inl (ValueError msg), b3)
              else submit_order b3
                (params ++ [''type'' \<mapsto> JStr ''TAKE_PROFIT'',
                            ''price'' \<mapsto> JFloat adjusted_price,
                            ''timeInForce'' \<mapsto> JStr ''GTC'']))))"

section \<open>Positions and leverage\<close>

definition py_int :: "jval \<Rightarrow> error + int" where
  \<comment> \<open>\<^verbatim>\<open>int(v)\<close>\<close>
  "py_int v = (case v of
       JNone \<Rightarrow> Inl TypeError
     | JBool b \<Rightarrow> Inr (if b then 1 else 0)
     | JInt n \<Rightarrow> Inr n
     | JFloat x \<Rightarrow> Inr (if expn x \<ge> 0 then mant x * 10 ^ nat (expn x)
                        else trunc_div (mant x) (10 ^ nat (- expn x)))
     | JStr s \<Rightarrow> (case int_of_digits (strip_space s) of
           None \<Rightarrow> Inl (ValueError [Lit ''invalid literal for int() with base 10: '', Lit s])
         | Some n \<Rightarrow> Inr n))"

fun filter_symbol :: "string \<Rightarrow> jdict list \<Rightarrow> error + jdict list" where
  \<comment> \<open>\<^verbatim>\<open>[p for p in positions if p["symbol"] == symbol]\<close>\<close>
  "filter_symbol symbol [] = Inr []"
| "filter_symbol symbol (p # ps) =
    bind_err (getitem p ''symbol'') (\<lambda>s.
    bind_err (filter_symbol symbol ps) (\<lambda>rest.
      Inr (if s = JStr symbol then p # rest else rest)))"

definition position_entry :: "jdict \<Rightarrow> error + jdict" where
  \<comment> \<open>the dictionary appended for one active position\<close>
  "position_entry pos =
    bind_err (getitem pos ''symbol'') (\<lambda>symbol.
    bind_err (bind_err (getitem pos ''positionAmt'') py_float) (\<lambda>position_amount.
    bind_err (bind_err (getitem pos ''entryPrice'') py_float) (\<lambda>entry_price.
    bind_err (bind_err (getitem pos ''markPrice'') py_float) (\<lambda>mark_price.
    bind_err (bind_err (getitem pos ''unRealizedProfit'') py_float) (\<lambda>unrealized_pnl.
    bind_err (bind_err (getitem pos ''liquidationPrice'') py_float) (\<lambda>liquidation_price.
    bind_err (bind_err (getitem pos ''leverage'') py_int) (\<lambda>leverage.
    bind_err (getitem pos ''marginType'') (\<lambda>margin_type.
    bind_err (getitem pos ''positionSide'') (\<lambda>position_side.
      Inr [''symbol'' \<mapsto> symbol,
           ''position_amount'' \<mapsto> JFloat position_amount,
           ''entry_price'' \<mapsto> JFloat entry_price,
           ''mark_price'' \<mapsto> JFloat mark_price,
           ''unrealized_pnl'' \<mapsto> JFloat unrealized_pnl,
           ''liquidation_price'' \<mapsto> JFloat liquidation_price,
           ''leverage'' \<mapsto> JInt leverage,
           ''margin_type'' \<mapsto> margin_type,
           ''position_side'' \<mapsto> position_side])))))))))"

fun active_positions :: "jdict list \<Rightarrow> error + jdict list" where
  \<comment> \<open>the loop that keeps the positions with a non-zero amount\<close>
  "active_positions [] = Inr []"
| "active_positions (pos # rest) =
    bind_err (bind_err (getitem pos ''positionAmt'') py_float) (\<lambda>amt.
      if float_truthy amt then
        bind_err (position_entry pos) (\<lambda>entry.
        bind_err (active_positions rest) (\<lambda>entries. Inr (entry # entries)))
      else active_positions rest)"

definition get_positions :: "bot \<Rightarrow> string option \<Rightarrow> (error + jdict list) \<times> bot" where
  "get_positions b symbol =
    (bind_err (futures_position_information (bot_client b) (calls b)) (\<lambda>positions.
       bind_err (case symbol of None \<Rightarrow> Inr positions
                 | Some s \<Rightarrow> if s \<noteq> [] then filter_symbol s positions else Inr positions)
         active_positions),
     b\<lparr>calls := calls b @ [PositionInformation]\<rparr>)"

definition set_leverage :: "bot \<Rightarrow> string \<Rightarrow> int \<Rightarrow> (error + jdict) \<times> bot" where
  "set_leverage b symbol leverage =
    (if leverage < 1 \<or> leverage > 125 then
       (Inl (ValueError [Lit ''Leverage must be between 1 and 125'']), b)
     else
       (futures_change_leverage (bot_client b) (calls b) symbol leverage,
        b\<lparr>calls := calls b @ [ChangeLeverage symbol leverage]\<rparr>))"

section \<open>Observations used in the statements\<close>

text \<open>
  The requests that reached \<^verbatim>\<open>futures_create_order\<close>, oldest first, and one field of
  each of them.
\<close>

fun order_of :: "remote_call \<Rightarrow> jdict list" where
  "order_of (CreateOrder params) = [params]"
| "order_of _ = []"

definition orders_sent :: "bot \<Rightarrow> jdict list" where
  "orders_sent b = concat (map order_of (calls b))"

definition sent_field :: "string \<Rightarrow> bot \<Rightarrow> jval option list" where
  "sent_field k b = map (\<lambda>params. params k) (orders_sent b)"

definition result_field :: "string \<Rightarrow> error + jdict \<Rightarrow> error + jval" where
  "result_field k r = bind_err r (\<lambda>d. getitem d k)"

definition refused :: "bot \<Rightarrow> (error + jdict) \<times> bot \<Rightarrow> bool" where
  \<comment> \<open>the call, started in state \<open>b\<close>, raised \<^verbatim>\<open>ValueError\<close> and sent no request\<close>
  "refused b r \<longleftrightarrow> (\<exists>m. fst r = Inl (ValueError m)) \<and> orders_sent (snd r) = orders_sent b"

text \<open>
  The filter at which the loops of \<^verbatim>\<open>_validate_quantity\<close> and \<^verbatim>\<open>_validate_price\<close>
  stop: the first item of the wanted type, provided every item before it has a
  \<^verbatim>\<open>filterType\<close>; and the three numbers read from it.
\<close>

fun find_filter :: "string \<Rightarrow> jdict list \<Rightarrow> error + jdict option" where
  "find_filter t [] = Inr None"
| "find_filter t (filter_item # rest) =
    bind_err (getitem filter_item ''filterType'') (\<lambda>v.
      if v = JStr t then Inr (Some filter_item) else find_filter t rest)"

definition read_bounds ::
    "jdict \<Rightarrow> string \<Rightarrow> string \<Rightarrow> string \<Rightarrow> error + (pyfloat \<times> pyfloat \<times> pyfloat)" where
  "read_bounds filter_item kmin kmax kstep =
    bind_err (bind_err (getitem filter_item kmin) py_float) (\<lambda>mn.
    bind_err (bind_err (getitem filter_item kmax) py_float) (\<lambda>mx.
    bind_err (bind_err (getitem filter_item kstep) py_float) (\<lambda>st.
      Inr (mn, mx, st))))"

definition amount_nonzero :: "jdict \<Rightarrow> bool" where
  \<comment> \<open>the record's \<^verbatim>\<open>positionAmt\<close> reads as a number other than zero\<close>
  "amount_nonzero pos =
    (case bind_err (getitem pos ''positionAmt'') py_float of
       Inl _ \<Rightarrow> False | Inr x \<Rightarrow> float_truthy x)"

definition select_symbol :: "string option \<Rightarrow> jdict list \<Rightarrow> jdict list" where
  \<comment> \<open>the records \<^verbatim>\<open>get_positions\<close> looks at: all of them, or those of the symbol asked for\<close>
  "select_symbol symbol ps = (case symbol of None \<Rightarrow> ps
     | Some s \<Rightarrow> if s = [] then ps else filter (\<lambda>p. p ''symbol'' = Some (JStr s)) ps)"

section \<open>A sample exchange\<close>

text \<open>
  Five symbols: one with the filters of the specification's examples, one whose
  quantity step is a whole number, one whose lot-size filter lacks its step, one with
  no lot-size filter and one with no price filter. A second bot knows one more symbol,
  whose lot-size filter has its minimum above its maximum.
\<close>

definition btc_price_filter :: jdict where
  "btc_price_filter =
    [''filterType'' \<mapsto> JStr ''PRICE_FILTER'', ''minPrice'' \<mapsto> JStr ''100'',
     ''maxPrice'' \<mapsto> JStr ''0'', ''tickSize'' \<mapsto> JStr ''0.1'']"

definition btc_lot_size :: jdict where
  "btc_lot_size =
    [''filterType'' \<mapsto> JStr ''LOT_SIZE'', ''minQty'' \<mapsto> JStr ''0.001'',
     ''maxQty'' \<mapsto> JStr ''1000'', ''stepSize'' \<mapsto> JStr ''0.001'']"

definition doge_price_filter :: jdict where
  "doge_price_filter =
    [''filterType'' \<mapsto> JStr ''PRICE_FILTER'', ''minPrice'' \<mapsto> JStr ''0.001'',
     ''maxPrice'' \<mapsto> JStr ''30'', ''tickSize'' \<mapsto> JStr ''0.001'']"

definition doge_lot_size :: jdict where
  "doge_lot_size =
    [''filterType'' \<mapsto> JStr ''LOT_SIZE'', ''minQty'' \<mapsto> JStr ''1'',
     ''maxQty'' \<mapsto> JStr ''10000000'', ''stepSize'' \<mapsto> JStr ''1'']"

definition broken_lot_size :: jdict where
  "broken_lot_size =
    [''filterType'' \<mapsto> JStr ''LOT_SIZE'', ''minQty'' \<mapsto> JStr ''0.001'',
     ''maxQty'' \<mapsto> JStr ''1000'']"

definition btc_info :: symbol_info where
  "btc_info = \<lparr>info_symbol = ''BTCUSDT'', info_filters = Some [btc_price_filter, btc_lot_size]\<rparr>"

definition doge_info :: symbol_info where
  "doge_info = \<lparr>info_symbol = ''DOGEUSDT'', info_filters = Some [doge_price_filter, doge_lot_size]\<rparr>"

definition broken_info :: symbol_info where
  "broken_info = \<lparr>info_symbol = ''BADUSDT'', info_filters = Some [btc_price_filter, broken_lot_size]\<rparr>"

definition bare_info :: symbol_info where
  "bare_info = \<lparr>info_symbol = ''XYZUSDT'', info_filters = Some [btc_price_filter]\<rparr>"

definition lot_only_info :: symbol_info where
  "lot_only_info = \<lparr>info_symbol = ''LOTUSDT'', info_filters = Some [btc_lot_size]\<rparr>"

definition sample_order :: jdict where
  \<comment> \<open>the record the sample exchange answers an order with\<close>
  "sample_order =
    [''orderId'' \<mapsto> JInt 1, ''status'' \<mapsto> JStr ''NEW'', ''origQty'' \<mapsto> JStr ''0.001'',
     ''stopPrice'' \<mapsto> JStr ''0'']"

definition flat_position :: jdict where
  "flat_position =
    [''symbol'' \<mapsto> JStr ''BTCUSDT'', ''positionAmt'' \<mapsto> JStr ''0'',
     ''entryPrice'' \<mapsto> JStr ''0.0'', ''markPrice'' \<mapsto> JStr ''0.0'',
     ''unRealizedProfit'' \<mapsto> JStr ''0.0'', ''liquidationPrice'' \<mapsto> JStr ''0'',
     ''leverage'' \<mapsto> JStr ''20'', ''marginType'' \<mapsto> JStr ''cross'',
     ''positionSide'' \<mapsto> JStr ''BOTH'']"

definition short_position :: jdict where
  "short_position =
    [''symbol'' \<mapsto> JStr ''ETHUSDT'', ''positionAmt'' \<mapsto> JStr ''-0.5'',
     ''entryPrice'' \<mapsto> JStr ''2000.5'', ''markPrice'' \<mapsto> JStr ''1990.0'',
     ''unRealizedProfit'' \<mapsto> JStr ''5.25'', ''liquidationPrice'' \<mapsto> JStr ''2500'',
     ''leverage'' \<mapsto> JStr ''10'', ''marginType'' \<mapsto> JStr ''isolated'',
     ''positionSide'' \<mapsto> JStr ''BOTH'']"

definition sample_client :: client where
  "sample_client =
    \<lparr>futures_exchange_info =
       (\<lambda>_. Inr [btc_info, doge_info, broken_info, bare_info, lot_only_info]),
     futures_create_order = (\<lambda>_ _. Inr sample_order),
     futures_change_leverage = (\<lambda>_ s l. Inr [''symbol'' \<mapsto> JStr s, ''leverage'' \<mapsto> JInt l]),
     futures_position_information = (\<lambda>_. Inr [flat_position, short_position])\<rparr>"

definition sample_bot :: bot where
  \<comment> \<open>a bot that has already looked the five symbols up\<close>
  "sample_bot =
    \<lparr>bot_client = sample_client,
     symbol_info_cache = [''BTCUSDT'' \<mapsto> btc_info, ''DOGEUSDT'' \<mapsto> doge_info,
                          ''BADUSDT'' \<mapsto> broken_info, ''XYZUSDT'' \<mapsto> bare_info,
                          ''LOTUSDT'' \<mapsto> lot_only_info],
     calls = []\<rparr>"

definition inverted_lot_size :: jdict where
  \<comment> \<open>a lot-size filter whose minimum lies above its maximum\<close>
  "inverted_lot_size =
    [''filterType'' \<mapsto> JStr ''LOT_SIZE'', ''minQty'' \<mapsto> JStr ''10'',
     ''maxQty'' \<mapsto> JStr ''5'', ''stepSize'' \<mapsto> JStr ''0.1'']"

definition inverted_info :: symbol_info where
  "inverted_info = \<lparr>info_symbol = ''INVUSDT'', info_filters = Some [inverted_lot_size]\<rparr>"

definition inverted_bot :: bot where
  "inverted_bot =
    \<lparr>bot_client = sample_client, symbol_info_cache = [''INVUSDT'' \<mapsto> inverted_info],
     calls = []\<rparr>"

definition fresh_bot :: bot where
  \<comment> \<open>a bot just created: nothing cached, nothing called\<close>
  "fresh_bot = \<lparr>bot_client = sample_client, symbol_info_cache = Map.empty, calls = []\<rparr>"

section \<open>Evaluation\<close>

declare strip_zeros.simps [simp del]
declare ndigits_nat.simps [simp del]

lemmas read_defs = float_of_string_def split_sign_def strip_space_def is_space_def is_digit_def
  digits_val_def digit_val_def int_of_digits_def py_float_def getitem_def get_or_def bind_err_def

lemmas decimal_defs = decimal_of_str_def ndigits_def ndigits_nat.simps strip_zeros.simps
  quantize_round_down_def trunc_div_def float_of_decimal_def float_lt_def float_gt_def
  float_val_def

lemmas sample_defs = sample_bot_def sample_client_def btc_info_def doge_info_def
  broken_info_def bare_info_def lot_only_info_def

section \<open>Lemmas on the remote calls and on cached symbols\<close>

lemma orders_sent_get_symbol_info:
  "orders_sent (snd (get_symbol_info b symbol)) = orders_sent b"
  by (simp add: get_symbol_info_def orders_sent_def Let_def split: option.splits sum.splits)

lemma snd_validate_quantity:
  "snd (validate_quantity b symbol q) = snd (get_symbol_info b symbol)"
  by (auto simp add: validate_quantity_def validate_quantity_try_def
      split: prod.splits sum.splits option.splits)

lemma snd_validate_price:
  "snd (validate_price b symbol p) = snd (get_symbol_info b symbol)"
  by (auto simp add: validate_price_def validate_price_try_def
      split: prod.splits sum.splits option.splits)

lemma orders_sent_validate_quantity:
  "orders_sent (snd (validate_quantity b symbol q)) = orders_sent b"
  by (simp add: snd_validate_quantity orders_sent_get_symbol_info)

lemma orders_sent_validate_price:
  "orders_sent (snd (validate_price b symbol p)) = orders_sent b"
  by (simp add: snd_validate_price orders_sent_get_symbol_info)

lemma orders_sent_submit_order:
  "orders_sent (snd (submit_order b params)) = orders_sent b @ [params]"
  by (simp add: submit_order_def orders_sent_def)

lemma validate_quantity_sent:
  "validate_quantity b symbol q = (r, b1) \<Longrightarrow> orders_sent b1 = orders_sent b"
  using orders_sent_validate_quantity [of b symbol q] by simp

lemma validate_price_sent:
  "validate_price b symbol p = (r, b1) \<Longrightarrow> orders_sent b1 = orders_sent b"
  using orders_sent_validate_price [of b symbol p] by simp

lemma cached_symbol_info:
  "symbol_info_cache b symbol = Some s \<Longrightarrow> get_symbol_info b symbol = (Inr s, b)"
  by (simp add: get_symbol_info_def)

lemma validate_quantity_cached:
  assumes "symbol_info_cache b symbol = Some info" and "info_filters info = Some fs"
  shows "validate_quantity b symbol q =
    ((case lot_size_loop fs q of Inl e \<Rightarrow> (True, [Lit ''Validation skipped''], q) | Inr r \<Rightarrow> r), b)"
  using assms
  by (simp add: validate_quantity_def validate_quantity_try_def cached_symbol_info split: sum.splits)

lemma validate_price_cached:
  assumes "symbol_info_cache b symbol = Some info" and "info_filters info = Some fs"
  shows "validate_price b symbol p =
    ((case price_filter_loop fs p of Inl e \<Rightarrow> (True, [Lit ''Validation skipped''], p) | Inr r \<Rightarrow> r), b)"
  using assms
  by (simp add: validate_price_def validate_price_try_def cached_symbol_info split: sum.splits)

section \<open>The sample exchange, evaluated\<close>

lemma doge_bounds:
  "read_bounds doge_lot_size ''minQty'' ''maxQty'' ''stepSize''
     = Inr (Float 1 0, Float 10000000 0, Float 1 0)"
  by (simp add: read_bounds_def doge_lot_size_def read_defs)

lemma doge_quantity:
  "validate_quantity sample_bot ''DOGEUSDT'' (Float 257 (-2))
     = ((True, [Lit ''Valid''], Float 25 (-1)), sample_bot)"
proof -
  have c: "symbol_info_cache sample_bot ''DOGEUSDT'' = Some doge_info"
    by (simp add: sample_bot_def)
  have f: "info_filters doge_info = Some [doge_price_filter, doge_lot_size]"
    by (simp add: doge_info_def)
  have l: "lot_size_loop [doge_price_filter, doge_lot_size] (Float 257 (-2))
      = Inr (True, [Lit ''Valid''], Float 25 (-1))"
    by (simp add: check_lot_size_def doge_price_filter_def doge_lot_size_def read_defs decimal_defs)
  show ?thesis unfolding validate_quantity_cached [OF c f] l by simp
qed

lemma five_halves_not_whole: "(of_int k :: rat) * 2 \<noteq> 5"
proof
  assume "(of_int k :: rat) * 2 = 5"
  then have "(of_int (k * 2) :: rat) = of_int 5" by simp
  then have "k * 2 = 5" by (simp only: of_int_eq_iff)
  then show False by presburger
qed

lemma btc_quantity:
  "validate_quantity (sample_bot\<lparr>calls := cs\<rparr>) ''BTCUSDT'' (Float 19 (-4))
     = ((True, [Lit ''Valid''], Float 1 (-3)), sample_bot\<lparr>calls := cs\<rparr>)"
proof -
  have c: "symbol_info_cache (sample_bot\<lparr>calls := cs\<rparr>) ''BTCUSDT'' = Some btc_info"
    by (simp add: sample_bot_def)
  have f: "info_filters btc_info = Some [btc_price_filter, btc_lot_size]"
    by (simp add: btc_info_def)
  have l: "lot_size_loop [btc_price_filter, btc_lot_size] (Float 19 (-4))
      = Inr (True, [Lit ''Valid''], Float 1 (-3))"
    by (simp add: check_lot_size_def btc_price_filter_def btc_lot_size_def read_defs decimal_defs)
  show ?thesis unfolding validate_quantity_cached [OF c f] l by simp
qed

lemma btc_price:
  "validate_price (sample_bot\<lparr>calls := cs\<rparr>) ''BTCUSDT'' (Float 123456 (-3))
     = ((True, [Lit ''Valid''], Float 1234 (-1)), sample_bot\<lparr>calls := cs\<rparr>)"
proof -
  have c: "symbol_info_cache (sample_bot\<lparr>calls := cs\<rparr>) ''BTCUSDT'' = Some btc_info"
    by (simp add: sample_bot_def)
  have f: "info_filters btc_info = Some [btc_price_filter, btc_lot_size]"
    by (simp add: btc_info_def)
  have l: "price_filter_loop [btc_price_filter, btc_lot_size] (Float 123456 (-3))
      = Inr (True, [Lit ''Valid''], Float 1234 (-1))"
    by (simp add: check_price_filter_def btc_price_filter_def btc_lot_size_def read_defs decimal_defs)
  show ?thesis unfolding validate_price_cached [OF c f] l by simp
qed

lemma sample_bot_calls: "sample_bot\<lparr>calls := []\<rparr> = sample_bot"
  by (simp add: sample_bot_def)

lemma btc_low_price:
  "validate_price (sample_bot\<lparr>calls := cs\<rparr>) ''BTCUSDT'' (Float 995 (-1))
     = ((False, [Lit ''Price '', Num (Float 995 (-1)), Lit '' below minimum '', Num (Float 100 0)],
          Float 995 (-1)), sample_bot\<lparr>calls := cs\<rparr>)"
proof -
  have c: "symbol_info_cache (sample_bot\<lparr>calls := cs\<rparr>) ''BTCUSDT'' = Some btc_info"
    by (simp add: sample_bot_def)
  have f: "info_filters btc_info = Some [btc_price_filter, btc_lot_size]"
    by (simp add: btc_info_def)
  have l: "price_filter_loop [btc_price_filter, btc_lot_size] (Float 995 (-1))
      = Inr (False, [Lit ''Price '', Num (Float 995 (-1)), Lit '' below minimum '', Num (Float 100 0)],
          Float 995 (-1))"
    by (simp add: check_price_filter_def btc_price_filter_def btc_lot_size_def read_defs decimal_defs)
  show ?thesis unfolding validate_price_cached [OF c f] l by simp
qed

lemma sample_quantity:
  "validate_quantity sample_bot ''BTCUSDT'' (Float 19 (-4))
     = ((True, [Lit ''Valid''], Float 1 (-3)), sample_bot)"
  using btc_quantity [of "[]"] by (simp add: sample_bot_calls)

lemma sample_price:
  "validate_price sample_bot ''BTCUSDT'' (Float 123456 (-3))
     = ((True, [Lit ''Valid''], Float 1234 (-1)), sample_bot)"
  using btc_price [of "[]"] by (simp add: sample_bot_calls)

lemma sample_low_price:
  "validate_price sample_bot ''BTCUSDT'' (Float 995 (-1))
     = ((False, [Lit ''Price '', Num (Float 995 (-1)), Lit '' below minimum '', Num (Float 100 0)],
          Float 995 (-1)), sample_bot)"
  using btc_low_price [of "[]"] by (simp add: sample_bot_calls)

lemma sample_nothing_sent: "orders_sent sample_bot = []"
  by (simp add: orders_sent_def sample_bot_def)

section \<open>Snapping to the step\<close>

text \<open>
  C1. The claim: for a filter with valid bounds and step and a raw value within the
  bounds, the adjusted value is a multiple of the step, is at most the raw value, and
  is less than one step below it. The code rounds down to the number of decimal places
  of \<^verbatim>\<open>str(step_size)\<close>, not to a multiple of the step. With the lot-size filter
  \<^verbatim>\<open>minQty "1", maxQty "10000000", stepSize "1"\<close> the step prints as \<^verbatim>\<open>1.0\<close>, and the
  quantity 2.57 is adjusted to 2.5, which is no multiple of 1.
\<close>

theorem validate_quantity_whole_step:
  "read_bounds doge_lot_size ''minQty'' ''maxQty'' ''stepSize''
     = Inr (Float 1 0, Float 10000000 0, Float 1 0)
   \<and> validate_quantity sample_bot ''DOGEUSDT'' (Float 257 (-2))
     = ((True, [Lit ''Valid''], Float 25 (-1)), sample_bot)
   \<and> float_val (Float 257 (-2)) = 257 / 100
   \<and> float_val (Float 25 (-1)) = 5 / 2
   \<and> (\<forall>k::int. float_val (Float 25 (-1)) \<noteq> of_int k * float_val (Float 1 0))"
  by (simp add: doge_bounds doge_quantity float_val_def five_halves_not_whole)

section \<open>Leverage\<close>

text \<open>
  C6. \<^verbatim>\<open>set_leverage\<close> raises \<^verbatim>\<open>ValueError\<close> for every leverage below 1 or above 125
  and leaves the bot as it was, so no remote call has been made; for every leverage
  from 1 to 125 it makes the one remote call and returns the client's answer.
\<close>

theorem set_leverage_range_check:
  "(leverage < 1 \<or> 125 < leverage \<longrightarrow>
      set_leverage b symbol leverage =
        (Inl (ValueError [Lit ''Leverage must be between 1 and 125'']), b))
   \<and> (1 \<le> leverage \<and> leverage \<le> 125 \<longrightarrow>
      fst (set_leverage b symbol leverage) =
        futures_change_leverage (bot_client b) (calls b) symbol leverage
      \<and> calls (snd (set_leverage b symbol leverage)) = calls b @ [ChangeLeverage symbol leverage])"
  by (simp add: set_leverage_def)

theorem set_leverage_range_check_witness:
  "set_leverage fresh_bot ''BTCUSDT'' 0 =
      (Inl (ValueError [Lit ''Leverage must be between 1 and 125'']), fresh_bot)
   \<and> set_leverage fresh_bot ''BTCUSDT'' 126 =
      (Inl (ValueError [Lit ''Leverage must be between 1 and 125'']), fresh_bot)
   \<and> fst (set_leverage fresh_bot ''BTCUSDT'' 1) =
      Inr [''symbol'' \<mapsto> JStr ''BTCUSDT'', ''leverage'' \<mapsto> JInt 1]
   \<and> fst (set_leverage fresh_bot ''BTCUSDT'' 125) =
      Inr [''symbol'' \<mapsto> JStr ''BTCUSDT'', ''leverage'' \<mapsto> JInt 125]
   \<and> calls (snd (set_leverage fresh_bot ''BTCUSDT'' 125)) = [ChangeLeverage ''BTCUSDT'' 125]"
  using set_leverage_range_check [of 0 fresh_bot "''BTCUSDT''"]
    set_leverage_range_check [of 126 fresh_bot "''BTCUSDT''"]
    set_leverage_range_check [of 1 fresh_bot "''BTCUSDT''"]
    set_leverage_range_check [of 125 fresh_bot "''BTCUSDT''"]
  by (simp add: fresh_bot_def sample_client_def)

section \<open>The response formatter\<close>

text \<open>
  What holds of the formatter: a missing numeric field is reported as 0, and a stop
  price that is missing or is the number 0 is reported as \<^verbatim>\<open>None\<close>.
\<close>

lemma format_order_response_defaults:
  assumes "format_order_response order = Inr r"
  shows "(order ''price'' = None \<longrightarrow> r ''price'' = Some (JFloat (Float 0 0)))
    \<and> (order ''origQty'' = None \<longrightarrow> r ''quantity'' = Some (JFloat (Float 0 0)))
    \<and> (order ''executedQty'' = None \<longrightarrow> r ''executed_qty'' = Some (JFloat (Float 0 0)))
    \<and> (order ''avgPrice'' = None \<longrightarrow> r ''avg_price'' = Some (JFloat (Float 0 0)))
    \<and> (order ''stopPrice'' = None \<longrightarrow> r ''stop_price'' = Some JNone)
    \<and> (order ''stopPrice'' = Some (JInt 0) \<longrightarrow> r ''stop_price'' = Some JNone)"
  using assms
  by (auto simp add: format_order_response_def bind_err_def get_or_def py_float_def truthy_def
      split: sum.splits if_splits)

text \<open>
  C8. The claim: a stop price that is 0 or absent in the raw record is reported as
  absent, never as the number 0. The exchange sends the stop price as a string, and the
  string \<^verbatim>\<open>"0"\<close> is truthy: the formatter reports the number 0.0 for it.
\<close>

theorem format_order_response_zero_stop_price:
  "sample_order ''stopPrice'' = Some (JStr ''0'')
   \<and> result_field ''stop_price'' (format_order_response sample_order) = Inr (JFloat (Float 0 0))
   \<and> float_val (Float 0 0) = 0"
  by (simp add: format_order_response_def sample_order_def result_field_def truthy_def read_defs
      float_val_def)

section \<open>Take-profit orders\<close>

text \<open>
  C10. A take-profit order with the limit price 0 is built exactly as one without a
  limit price: the two calls return the same result and leave the same state, so the
  price is never validated; the one request that may be sent has the type
  \<^verbatim>\<open>TAKE_PROFIT_MARKET\<close> and neither a price nor a time in force.
\<close>

theorem take_profit_zero_price_is_omitted:
  assumes "\<not> float_truthy z"
  shows "place_take_profit_order b symbol side quantity stop_price (Some z) reduce_only
           = place_take_profit_order b symbol side quantity stop_price None reduce_only
    \<and> (orders_sent (snd (place_take_profit_order b symbol side quantity stop_price (Some z) reduce_only))
          = orders_sent b
       \<or> (\<exists>params.
            orders_sent (snd (place_take_profit_order b symbol side quantity stop_price (Some z) reduce_only))
              = orders_sent b @ [params]
            \<and> params ''type'' = Some (JStr ''TAKE_PROFIT_MARKET'')
            \<and> params ''price'' = None \<and> params ''timeInForce'' = None))"
proof -
  have eq: "if_price (Some z) = None" using assms by (simp add: if_price_def)
  have q: "orders_sent (snd (validate_quantity b symbol quantity)) = orders_sent b"
    by (rule orders_sent_validate_quantity)
  have p: "\<And>b1. orders_sent (snd (validate_price b1 symbol stop_price)) = orders_sent b1"
    by (rule orders_sent_validate_price)
  show ?thesis
    using q p [of "snd (validate_quantity b symbol quantity)"]
    by (auto simp add: place_take_profit_order_def eq orders_sent_submit_order
        if_price_def [of None] split: prod.splits)
qed

theorem take_profit_zero_price_is_omitted_witness:
  "\<not> float_truthy (Float 0 0)
   \<and> place_take_profit_order sample_bot ''BTCUSDT'' SELL (Float 19 (-4)) (Float 123456 (-3))
        (Some (Float 0 0)) True
     = place_take_profit_order sample_bot ''BTCUSDT'' SELL (Float 19 (-4)) (Float 123456 (-3))
        None True
   \<and> sent_field ''type'' (snd (place_take_profit_order sample_bot ''BTCUSDT'' SELL (Float 19 (-4))
        (Float 123456 (-3)) None True)) = [Some (JStr ''TAKE_PROFIT_MARKET'')]"
proof -
  have z: "\<not> float_truthy (Float 0 0)" by (simp add: float_truthy_def)
  have s: "sent_field ''type'' (snd (place_take_profit_order sample_bot ''BTCUSDT'' SELL (Float 19 (-4))
        (Float 123456 (-3)) None True)) = [Some (JStr ''TAKE_PROFIT_MARKET'')]"
    using btc_quantity [of "[]"] btc_price [of "[]"]
    by (simp add: place_take_profit_order_def sample_bot_calls if_price_def submit_order_def
        sent_field_def orders_sent_def sample_bot_def Let_def)
  show ?thesis
    using take_profit_zero_price_is_omitted [OF z, of sample_bot "''BTCUSDT''" SELL
        "Float 19 (-4)" "Float 123456 (-3)" True] z s
    by simp
qed

text \<open>
  C5. The claim: a take-profit order with a limit price supplied has the type
  \<^verbatim>\<open>TAKE_PROFIT\<close>, \<^verbatim>\<open>timeInForce = GTC\<close> and a validated price. A supplied limit price
  of 0 is falsy in \<^verbatim>\<open>if price:\<close>, and the request is a \<^verbatim>\<open>TAKE_PROFIT_MARKET\<close> one
  without price and without time in force.
\<close>

theorem take_profit_zero_price_counterexample:
  "sent_field ''type'' (snd (place_take_profit_order sample_bot ''BTCUSDT'' SELL (Float 2 (-3))
        (Float 123456 (-3)) (Some (Float 0 0)) True)) = [Some (JStr ''TAKE_PROFIT_MARKET'')]
   \<and> sent_field ''price'' (snd (place_take_profit_order sample_bot ''BTCUSDT'' SELL (Float 2 (-3))
        (Float 123456 (-3)) (Some (Float 0 0)) True)) = [None]
   \<and> sent_field ''timeInForce'' (snd (place_take_profit_order sample_bot ''BTCUSDT'' SELL (Float 2 (-3))
        (Float 123456 (-3)) (Some (Float 0 0)) True)) = [None]"
proof -
  have c: "symbol_info_cache sample_bot ''BTCUSDT'' = Some btc_info"
    by (simp add: sample_bot_def)
  have f: "info_filters btc_info = Some [btc_price_filter, btc_lot_size]"
    by (simp add: btc_info_def)
  have l: "lot_size_loop [btc_price_filter, btc_lot_size] (Float 2 (-3))
      = Inr (True, [Lit ''Valid''], Float 2 (-3))"
    by (simp add: check_lot_size_def btc_price_filter_def btc_lot_size_def read_defs decimal_defs)
  have q: "validate_quantity sample_bot ''BTCUSDT'' (Float 2 (-3))
      = ((True, [Lit ''Valid''], Float 2 (-3)), sample_bot)"
    unfolding validate_quantity_cached [OF c f] l by simp
  show ?thesis
    using q sample_price
    by (simp add: place_take_profit_order_def if_price_def float_truthy_def
        submit_order_def sent_field_def orders_sent_def sample_bot_def Let_def)
qed

text \<open>
  C5, amended. Once the quantity and the trigger price have passed validation: without
  a limit price the request sent has the type \<^verbatim>\<open>TAKE_PROFIT_MARKET\<close> and no price
  field; with a limit price other than zero the request sent has the type
  \<^verbatim>\<open>TAKE_PROFIT\<close>, \<^verbatim>\<open>timeInForce = GTC\<close> and, as its price, the adjusted price that
  \<^verbatim>\<open>_validate_price\<close> returned for it, and when that validation fails the call raises
  \<^verbatim>\<open>ValueError\<close> with its message.
\<close>

theorem take_profit_request:
  assumes "validate_quantity b symbol quantity = ((True, mq, aq), bq)"
      and "validate_price bq symbol stop_price = ((True, ms, ast), bs)"
  shows "(\<exists>params.
            orders_sent (snd (place_take_profit_order b symbol side quantity stop_price None ro))
              = orders_sent b @ [params]
            \<and> params ''type'' = Some (JStr ''TAKE_PROFIT_MARKET'')
            \<and> params ''price'' = None)
       \<and> (float_truthy x \<and> validate_price bs symbol x = ((okp, mp, ap), bp) \<longrightarrow>
            (if okp then
               \<exists>params.
                 orders_sent (snd (place_take_profit_order b symbol side quantity stop_price (Some x) ro))
                   = orders_sent b @ [params]
                 \<and> params ''type'' = Some (JStr ''TAKE_PROFIT'')
                 \<and> params ''timeInForce'' = Some (JStr ''GTC'')
                 \<and> params ''price'' = Some (JFloat ap)
             else place_take_profit_order b symbol side quantity stop_price (Some x) ro
                    = (Inl (ValueError mp), bp)))"
proof -
  have s1: "orders_sent bq = orders_sent b"
    by (rule validate_quantity_sent [OF assms(1)])
  have s2: "orders_sent bs = orders_sent b"
    using validate_price_sent [OF assms(2)] s1 by simp
  have none: "\<exists>params.
      orders_sent (snd (place_take_profit_order b symbol side quantity stop_price None ro))
        = orders_sent b @ [params]
      \<and> params ''type'' = Some (JStr ''TAKE_PROFIT_MARKET'') \<and> params ''price'' = None"
    by (simp add: place_take_profit_order_def assms if_price_def orders_sent_submit_order s2)
  have some: "\<exists>params.
      orders_sent (snd (place_take_profit_order b symbol side quantity stop_price (Some x) ro))
        = orders_sent b @ [params]
      \<and> params ''type'' = Some (JStr ''TAKE_PROFIT'')
      \<and> params ''timeInForce'' = Some (JStr ''GTC'')
      \<and> params ''price'' = Some (JFloat ap)"
    if "float_truthy x" and v: "validate_price bs symbol x = ((True, mp, ap), bp)"
  proof -
    have s3: "orders_sent bp = orders_sent b"
      using validate_price_sent [OF v] s2 by simp
    show ?thesis
      using that
      by (simp add: place_take_profit_order_def assms if_price_def orders_sent_submit_order s3)
  qed
  have bad: "place_take_profit_order b symbol side quantity stop_price (Some x) ro
      = (Inl (ValueError mp), bp)"
    if "float_truthy x" and "validate_price bs symbol x = ((False, mp, ap), bp)"
    using that by (simp add: place_take_profit_order_def assms if_price_def)
  show ?thesis
    using none some bad by (cases okp) auto
qed

theorem take_profit_request_witness:
  "sent_field ''type'' (snd (place_take_profit_order sample_bot ''BTCUSDT'' SELL (Float 19 (-4))
        (Float 123456 (-3)) None True)) = [Some (JStr ''TAKE_PROFIT_MARKET'')]
   \<and> sent_field ''price'' (snd (place_take_profit_order sample_bot ''BTCUSDT'' SELL (Float 19 (-4))
        (Float 123456 (-3)) None True)) = [None]
   \<and> sent_field ''type'' (snd (place_take_profit_order sample_bot ''BTCUSDT'' SELL (Float 19 (-4))
        (Float 123456 (-3)) (Some (Float 123456 (-3))) True)) = [Some (JStr ''TAKE_PROFIT'')]
   \<and> sent_field ''timeInForce'' (snd (place_take_profit_order sample_bot ''BTCUSDT'' SELL (Float 19 (-4))
        (Float 123456 (-3)) (Some (Float 123456 (-3))) True)) = [Some (JStr ''GTC'')]
   \<and> sent_field ''price'' (snd (place_take_profit_order sample_bot ''BTCUSDT'' SELL (Float 19 (-4))
        (Float 123456 (-3)) (Some (Float 123456 (-3))) True)) = [Some (JFloat (Float 1234 (-1)))]
   \<and> fst (place_take_profit_order sample_bot ''BTCUSDT'' SELL (Float 19 (-4))
        (Float 123456 (-3)) (Some (Float 995 (-1))) True)
      = Inl (ValueError [Lit ''Price '', Num (Float 995 (-1)), Lit '' below minimum '', Num (Float 100 0)])"
proof -
  have t1: "float_truthy (Float 123456 (-3))" and t2: "float_truthy (Float 995 (-1))"
    by (simp_all add: float_truthy_def)
  note all = take_profit_request [OF sample_quantity sample_price]
  have omitted: "sent_field ''type'' (snd (place_take_profit_order sample_bot ''BTCUSDT'' SELL
        (Float 19 (-4)) (Float 123456 (-3)) None True)) = [Some (JStr ''TAKE_PROFIT_MARKET'')]
      \<and> sent_field ''price'' (snd (place_take_profit_order sample_bot ''BTCUSDT'' SELL
        (Float 19 (-4)) (Float 123456 (-3)) None True)) = [None]"
    using all [THEN conjunct1, of SELL True]
    by (auto simp add: sent_field_def sample_nothing_sent)
  have supplied: "sent_field ''type'' (snd (place_take_profit_order sample_bot ''BTCUSDT'' SELL
        (Float 19 (-4)) (Float 123456 (-3)) (Some (Float 123456 (-3))) True))
        = [Some (JStr ''TAKE_PROFIT'')]
      \<and> sent_field ''timeInForce'' (snd (place_take_profit_order sample_bot ''BTCUSDT'' SELL
        (Float 19 (-4)) (Float 123456 (-3)) (Some (Float 123456 (-3))) True))
        = [Some (JStr ''GTC'')]
      \<and> sent_field ''price'' (snd (place_take_profit_order sample_bot ''BTCUSDT'' SELL
        (Float 19 (-4)) (Float 123456 (-3)) (Some (Float 123456 (-3))) True))
        = [Some (JFloat (Float 1234 (-1)))]"
    using all [THEN conjunct2, THEN mp, OF conjI, OF t1 sample_price, of SELL True]
    by (auto simp add: sent_field_def sample_nothing_sent)
  have refused: "fst (place_take_profit_order sample_bot ''BTCUSDT'' SELL (Float 19 (-4))
        (Float 123456 (-3)) (Some (Float 995 (-1))) True)
      = Inl (ValueError [Lit ''Price '', Num (Float 995 (-1)), Lit '' below minimum '',
          Num (Float 100 0)])"
    using all [THEN conjunct2, THEN mp, OF conjI, OF t2 sample_low_price, of SELL True]
    by simp
  show ?thesis using omitted supplied refused by simp
qed

section \<open>What the builders send\<close>

lemma place_market_order_fields:
  assumes "validate_quantity b symbol quantity = ((okq, mq, aq), b1)"
  shows "if okq then
           \<exists>params. orders_sent (snd (place_market_order b symbol side quantity ro))
                       = orders_sent b @ [params]
             \<and> params ''quantity'' = Some (JFloat aq)
         else fst (place_market_order b symbol side quantity ro) = Inl (ValueError mq)
           \<and> orders_sent (snd (place_market_order b symbol side quantity ro)) = orders_sent b"
  using assms validate_quantity_sent [OF assms]
  by (simp add: place_market_order_def orders_sent_submit_order)

lemma place_limit_order_fields:
  assumes "validate_quantity b symbol quantity = ((okq, mq, aq), b1)"
      and "validate_price b1 symbol price = ((okp, mp, ap), b2)"
  shows "if okq \<and> okp then
           \<exists>params. orders_sent (snd (place_limit_order b symbol side quantity price tif ro))
                       = orders_sent b @ [params]
             \<and> params ''quantity'' = Some (JFloat aq) \<and> params ''price'' = Some (JFloat ap)
         else fst (place_limit_order b symbol side quantity price tif ro)
                = Inl (ValueError (if okq then mp else mq))
           \<and> orders_sent (snd (place_limit_order b symbol side quantity price tif ro))
                = orders_sent b"
  using assms validate_quantity_sent [OF assms(1)] validate_price_sent [OF assms(2)]
  by (simp add: place_limit_order_def orders_sent_submit_order)

lemma place_stop_limit_order_fields:
  assumes "validate_quantity b symbol quantity = ((okq, mq, aq), b1)"
      and "validate_price b1 symbol price = ((okp, mp, ap), b2)"
      and "validate_price b2 symbol stop_price = ((oks, ms, ast), b3)"
  shows "if okq \<and> okp \<and> oks then
           \<exists>params. orders_sent (snd (place_stop_limit_order b symbol side quantity price stop_price tif ro))
                       = orders_sent b @ [params]
             \<and> params ''quantity'' = Some (JFloat aq) \<and> params ''price'' = Some (JFloat ap)
             \<and> params ''stopPrice'' = Some (JFloat ast)
         else fst (place_stop_limit_order b symbol side quantity price stop_price tif ro)
                = Inl (ValueError (if \<not> okq then mq else if \<not> okp then mp else ms))
           \<and> orders_sent (snd (place_stop_limit_order b symbol side quantity price stop_price tif ro))
                = orders_sent b"
  using assms validate_quantity_sent [OF assms(1)] validate_price_sent [OF assms(2)]
    validate_price_sent [OF assms(3)]
  by (simp add: place_stop_limit_order_def orders_sent_submit_order)

lemma place_stop_market_order_fields:
  assumes "validate_quantity b symbol quantity = ((okq, mq, aq), b1)"
      and "validate_price b1 symbol stop_price = ((oks, ms, ast), b2)"
  shows "if okq \<and> oks then
           \<exists>params. orders_sent (snd (place_stop_market_order b symbol side quantity stop_price ro))
                       = orders_sent b @ [params]
             \<and> params ''quantity'' = Some (JFloat aq) \<and> params ''stopPrice'' = Some (JFloat ast)
         else fst (place_stop_market_order b symbol side quantity stop_price ro)
                = Inl (ValueError (if okq then ms else mq))
           \<and> orders_sent (snd (place_stop_market_order b symbol side quantity stop_price ro))
                = orders_sent b"
  using assms validate_quantity_sent [OF assms(1)] validate_price_sent [OF assms(2)]
  by (simp add: place_stop_market_order_def orders_sent_submit_order)

lemma place_take_profit_market_fields:
  assumes "validate_quantity b symbol quantity = ((okq, mq, aq), b1)"
      and "validate_price b1 symbol stop_price = ((oks, ms, ast), b2)"
      and "if_price price = None"
  shows "if okq \<and> oks then
           \<exists>params. orders_sent (snd (place_take_profit_order b symbol side quantity stop_price price ro))
                       = orders_sent b @ [params]
             \<and> params ''quantity'' = Some (JFloat aq) \<and> params ''stopPrice'' = Some (JFloat ast)
             \<and> params ''price'' = None
         else fst (place_take_profit_order b symbol side quantity stop_price price ro)
                = Inl (ValueError (if okq then ms else mq))
           \<and> orders_sent (snd (place_take_profit_order b symbol side quantity stop_price price ro))
                = orders_sent b"
  using assms validate_quantity_sent [OF assms(1)] validate_price_sent [OF assms(2)]
  by (simp add: place_take_profit_order_def orders_sent_submit_order)

lemma place_take_profit_limit_fields:
  assumes "validate_quantity b symbol quantity = ((okq, mq, aq), b1)"
      and "validate_price b1 symbol stop_price = ((oks, ms, ast), b2)"
      and "if_price price = Some x"
      and "validate_price b2 symbol x = ((okp, mp, ap), b3)"
  shows "if okq \<and> oks \<and> okp then
           \<exists>params. orders_sent (snd (place_take_profit_order b symbol side quantity stop_price price ro))
                       = orders_sent b @ [params]
             \<and> params ''quantity'' = Some (JFloat aq) \<and> params ''stopPrice'' = Some (JFloat ast)
             \<and> params ''price'' = Some (JFloat ap)
         else fst (place_take_profit_order b symbol side quantity stop_price price ro)
                = Inl (ValueError (if \<not> okq then mq else if \<not> oks then ms else mp))
           \<and> orders_sent (snd (place_take_profit_order b symbol side quantity stop_price price ro))
                = orders_sent b"
  using assms validate_quantity_sent [OF assms(1)] validate_price_sent [OF assms(2)]
    validate_price_sent [OF assms(4)]
  by (simp add: place_take_profit_order_def orders_sent_submit_order)

text \<open>
  Each builder sends the adjusted values its validations returned, or raises with the
  message of the first validation that failed and sends nothing.
\<close>

lemma builders_forward_validated_values:
  assumes "validate_quantity b symbol quantity = ((okq, mq, aq), bq)"
  shows "(if okq then
            \<exists>params. orders_sent (snd (place_market_order b symbol side quantity ro))
                        = orders_sent b @ [params]
              \<and> params ''quantity'' = Some (JFloat aq)
          else fst (place_market_order b symbol side quantity ro) = Inl (ValueError mq)
            \<and> orders_sent (snd (place_market_order b symbol side quantity ro)) = orders_sent b)
    \<and> (validate_price bq symbol price = ((okp, mp, ap), bp) \<longrightarrow>
         (if okq \<and> okp then
            \<exists>params. orders_sent (snd (place_limit_order b symbol side quantity price tif ro))
                        = orders_sent b @ [params]
              \<and> params ''quantity'' = Some (JFloat aq) \<and> params ''price'' = Some (JFloat ap)
          else fst (place_limit_order b symbol side quantity price tif ro)
                 = Inl (ValueError (if okq then mp else mq))
            \<and> orders_sent (snd (place_limit_order b symbol side quantity price tif ro))
                 = orders_sent b))
    \<and> (validate_price bq symbol price = ((okp, mp, ap), bp)
        \<and> validate_price bp symbol stop_price = ((oks, ms, ast), bs) \<longrightarrow>
         (if okq \<and> okp \<and> oks then
            \<exists>params. orders_sent (snd (place_stop_limit_order b symbol side quantity price
                          stop_price tif ro)) = orders_sent b @ [params]
              \<and> params ''quantity'' = Some (JFloat aq) \<and> params ''price'' = Some (JFloat ap)
              \<and> params ''stopPrice'' = Some (JFloat ast)
          else fst (place_stop_limit_order b symbol side quantity price stop_price tif ro)
                 = Inl (ValueError (if \<not> okq then mq else if \<not> okp then mp else ms))
            \<and> orders_sent (snd (place_stop_limit_order b symbol side quantity price
                 stop_price tif ro)) = orders_sent b))
    \<and> (validate_price bq symbol trigger = ((okt, mt, atr), bt) \<longrightarrow>
         (if okq \<and> okt then
            \<exists>params. orders_sent (snd (place_stop_market_order b symbol side quantity trigger ro))
                        = orders_sent b @ [params]
              \<and> params ''quantity'' = Some (JFloat aq) \<and> params ''stopPrice'' = Some (JFloat atr)
          else fst (place_stop_market_order b symbol side quantity trigger ro)
                 = Inl (ValueError (if okq then mt else mq))
            \<and> orders_sent (snd (place_stop_market_order b symbol side quantity trigger ro))
                 = orders_sent b))
    \<and> (validate_price bq symbol trigger = ((okt, mt, atr), bt) \<and> if_price limit = None \<longrightarrow>
         (if okq \<and> okt then
            \<exists>params. orders_sent (snd (place_take_profit_order b symbol side quantity trigger
                          limit ro)) = orders_sent b @ [params]
              \<and> params ''quantity'' = Some (JFloat aq) \<and> params ''stopPrice'' = Some (JFloat atr)
              \<and> params ''price'' = None
          else fst (place_take_profit_order b symbol side quantity trigger limit ro)
                 = Inl (ValueError (if okq then mt else mq))
            \<and> orders_sent (snd (place_take_profit_order b symbol side quantity trigger limit ro))
                 = orders_sent b))
    \<and> (validate_price bq symbol trigger = ((okt, mt, atr), bt) \<and> if_price limit = Some x
        \<and> validate_price bt symbol x = ((okx, mx, ax), bx) \<longrightarrow>
         (if okq \<and> okt \<and> okx then
            \<exists>params. orders_sent (snd (place_take_profit_order b symbol side quantity trigger
                          limit ro)) = orders_sent b @ [params]
              \<and> params ''quantity'' = Some (JFloat aq) \<and> params ''stopPrice'' = Some (JFloat atr)
              \<and> params ''price'' = Some (JFloat ax)
          else fst (place_take_profit_order b symbol side quantity trigger limit ro)
                 = Inl (ValueError (if \<not> okq then mq else if \<not> okt then mt else mx))
            \<and> orders_sent (snd (place_take_profit_order b symbol side quantity trigger limit ro))
                 = orders_sent b))"
proof (intro conjI impI)
  show "if okq then
            \<exists>params. orders_sent (snd (place_market_order b symbol side quantity ro))
                        = orders_sent b @ [params]
              \<and> params ''quantity'' = Some (JFloat aq)
          else fst (place_market_order b symbol side quantity ro) = Inl (ValueError mq)
            \<and> orders_sent (snd (place_market_order b symbol side quantity ro)) = orders_sent b"
    by (rule place_market_order_fields [OF assms])
next
  assume "validate_price bq symbol price = ((okp, mp, ap), bp)"
  then show "if okq \<and> okp then
            \<exists>params. orders_sent (snd (place_limit_order b symbol side quantity price tif ro))
                        = orders_sent b @ [params]
              \<and> params ''quantity'' = Some (JFloat aq) \<and> params ''price'' = Some (JFloat ap)
          else fst (place_limit_order b symbol side quantity price tif ro)
                 = Inl (ValueError (if okq then mp else mq))
            \<and> orders_sent (snd (place_limit_order b symbol side quantity price tif ro))
                 = orders_sent b"
    by (rule place_limit_order_fields [OF assms])
next
  assume "validate_price bq symbol price = ((okp, mp, ap), bp)
        \<and> validate_price bp symbol stop_price = ((oks, ms, ast), bs)"
  then show "if okq \<and> okp \<and> oks then
            \<exists>params. orders_sent (snd (place_stop_limit_order b symbol side quantity price
                          stop_price tif ro)) = orders_sent b @ [params]
              \<and> params ''quantity'' = Some (JFloat aq) \<and> params ''price'' = Some (JFloat ap)
              \<and> params ''stopPrice'' = Some (JFloat ast)
          else fst (place_stop_limit_order b symbol side quantity price stop_price tif ro)
                 = Inl (ValueError (if \<not> okq then mq else if \<not> okp then mp else ms))
            \<and> orders_sent (snd (place_stop_limit_order b symbol side quantity price
                 stop_price tif ro)) = orders_sent b"
    using place_stop_limit_order_fields [OF assms] by blast
next
  assume "validate_price bq symbol trigger = ((okt, mt, atr), bt)"
  then show "if okq \<and> okt then
            \<exists>params. orders_sent (snd (place_stop_market_order b symbol side quantity trigger ro))
                        = orders_sent b @ [params]
              \<and> params ''quantity'' = Some (JFloat aq) \<and> params ''stopPrice'' = Some (JFloat atr)
          else fst (place_stop_market_order b symbol side quantity trigger ro)
                 = Inl (ValueError (if okq then mt else mq))
            \<and> orders_sent (snd (place_stop_market_order b symbol side quantity trigger ro))
                 = orders_sent b"
    by (rule place_stop_market_order_fields [OF assms])
next
  assume "validate_price bq symbol trigger = ((okt, mt, atr), bt) \<and> if_price limit = None"
  then show "if okq \<and> okt then
            \<exists>params. orders_sent (snd (place_take_profit_order b symbol side quantity trigger
                          limit ro)) = orders_sent b @ [params]
              \<and> params ''quantity'' = Some (JFloat aq) \<and> params ''stopPrice'' = Some (JFloat atr)
              \<and> params ''price'' = None
          else fst (place_take_profit_order b symbol side quantity trigger limit ro)
                 = Inl (ValueError (if okq then mt else mq))
            \<and> orders_sent (snd (place_take_profit_order b symbol side quantity trigger limit ro))
                 = orders_sent b"
    using place_take_profit_market_fields [OF assms] by blast
next
  assume "validate_price bq symbol trigger = ((okt, mt, atr), bt) \<and> if_price limit = Some x
        \<and> validate_price bt symbol x = ((okx, mx, ax), bx)"
  then show "if okq \<and> okt \<and> okx then
            \<exists>params. orders_sent (snd (place_take_profit_order b symbol side quantity trigger
                          limit ro)) = orders_sent b @ [params]
              \<and> params ''quantity'' = Some (JFloat aq) \<and> params ''stopPrice'' = Some (JFloat atr)
              \<and> params ''price'' = Some (JFloat ax)
          else fst (place_take_profit_order b symbol side quantity trigger limit ro)
                 = Inl (ValueError (if \<not> okq then mq else if \<not> okt then mt else mx))
            \<and> orders_sent (snd (place_take_profit_order b symbol side quantity trigger limit ro))
                 = orders_sent b"
    using place_take_profit_limit_fields [OF assms] by blast
qed

section \<open>Lemmas on the filter loops\<close>

text \<open>
  Each loop is the search for its filter followed by the body run on the filter found.
\<close>

lemma lot_size_loop_find:
  "lot_size_loop fs q =
    bind_err (find_filter ''LOT_SIZE'' fs) (\<lambda>r. case r of
        None \<Rightarrow> Inr (True, [Lit ''No LOT_SIZE filter found''], q)
      | Some f \<Rightarrow> check_lot_size f q)"
  by (induction fs) (auto simp add: bind_err_def split: sum.splits)

lemma price_filter_loop_find:
  "price_filter_loop fs p =
    bind_err (find_filter ''PRICE_FILTER'' fs) (\<lambda>r. case r of
        None \<Rightarrow> Inr (True, [Lit ''No PRICE_FILTER found''], p)
      | Some f \<Rightarrow> check_price_filter f p)"
  by (induction fs) (auto simp add: bind_err_def split: sum.splits)

lemma find_filter_none:
  "find_filter t fs = Inr None \<longleftrightarrow> (\<forall>f\<in>set fs. \<exists>v. f ''filterType'' = Some v \<and> v \<noteq> JStr t)"
  by (induction fs) (auto simp add: bind_err_def getitem_def split: option.splits)

lemma check_lot_size_bounds:
  assumes "read_bounds f ''minQty'' ''maxQty'' ''stepSize'' = Inr (mn, mx, st)"
  shows "check_lot_size f q =
    (if float_lt q mn then
       Inr (False, [Lit ''Quantity '', Num q, Lit '' below minimum '', Num mn], q)
     else if float_gt q mx then
       Inr (False, [Lit ''Quantity '', Num q, Lit '' above maximum '', Num mx], q)
     else bind_err (quantize_round_down (decimal_of_str q) (decimal_of_str st))
            (\<lambda>d. Inr (True, [Lit ''Valid''], float_of_decimal d)))"
  using assms
  by (auto simp add: read_bounds_def check_lot_size_def bind_err_def split: sum.splits)

lemma check_price_filter_bounds:
  assumes "read_bounds f ''minPrice'' ''maxPrice'' ''tickSize'' = Inr (mn, mx, st)"
  shows "check_price_filter f p =
    (if float_lt p mn then
       Inr (False, [Lit ''Price '', Num p, Lit '' below minimum '', Num mn], p)
     else if float_gt mx (Float 0 0) \<and> float_gt p mx then
       Inr (False, [Lit ''Price '', Num p, Lit '' above maximum '', Num mx], p)
     else bind_err (quantize_round_down (decimal_of_str p) (decimal_of_str st))
            (\<lambda>d. Inr (True, [Lit ''Valid''], float_of_decimal d)))"
  using assms
  by (auto simp add: read_bounds_def check_price_filter_def bind_err_def split: sum.splits)

lemma validate_quantity_rule:
  assumes "get_symbol_info b symbol = (Inr info, bi)" and "info_filters info = Some fs"
      and "find_filter ''LOT_SIZE'' fs = Inr (Some f)"
      and "read_bounds f ''minQty'' ''maxQty'' ''stepSize'' = Inr (mn, mx, st)"
  shows "validate_quantity b symbol q =
    ((if float_lt q mn then
        (False, [Lit ''Quantity '', Num q, Lit '' below minimum '', Num mn], q)
      else if float_gt q mx then
        (False, [Lit ''Quantity '', Num q, Lit '' above maximum '', Num mx], q)
      else case quantize_round_down (decimal_of_str q) (decimal_of_str st) of
             Inl e \<Rightarrow> (True, [Lit ''Validation skipped''], q)
           | Inr d \<Rightarrow> (True, [Lit ''Valid''], float_of_decimal d)), bi)"
  by (simp add: validate_quantity_def validate_quantity_try_def assms(1,2) lot_size_loop_find
      assms(3) check_lot_size_bounds [OF assms(4)] bind_err_def split: sum.splits)

lemma validate_price_rule:
  assumes "get_symbol_info b symbol = (Inr info, bi)" and "info_filters info = Some fs"
      and "find_filter ''PRICE_FILTER'' fs = Inr (Some f)"
      and "read_bounds f ''minPrice'' ''maxPrice'' ''tickSize'' = Inr (mn, mx, st)"
  shows "validate_price b symbol p =
    ((if float_lt p mn then
        (False, [Lit ''Price '', Num p, Lit '' below minimum '', Num mn], p)
      else if float_gt mx (Float 0 0) \<and> float_gt p mx then
        (False, [Lit ''Price '', Num p, Lit '' above maximum '', Num mx], p)
      else case quantize_round_down (decimal_of_str p) (decimal_of_str st) of
             Inl e \<Rightarrow> (True, [Lit ''Validation skipped''], p)
           | Inr d \<Rightarrow> (True, [Lit ''Valid''], float_of_decimal d)), bi)"
  by (simp add: validate_price_def validate_price_try_def assms(1,2) price_filter_loop_find
      assms(3) check_price_filter_bounds [OF assms(4)] bind_err_def split: sum.splits)

lemma validate_quantity_no_filter:
  assumes "get_symbol_info b symbol = (Inr info, bi)" and "info_filters info = Some fs"
      and "\<forall>f\<in>set fs. \<exists>v. f ''filterType'' = Some v \<and> v \<noteq> JStr ''LOT_SIZE''"
  shows "validate_quantity b symbol q = ((True, [Lit ''No LOT_SIZE filter found''], q), bi)"
proof -
  have "find_filter ''LOT_SIZE'' fs = Inr None"
    using assms(3) by (simp add: find_filter_none)
  then show ?thesis
    by (simp add: validate_quantity_def validate_quantity_try_def assms(1,2) lot_size_loop_find
        bind_err_def)
qed

lemma validate_price_no_filter:
  assumes "get_symbol_info b symbol = (Inr info, bi)" and "info_filters info = Some fs"
      and "\<forall>f\<in>set fs. \<exists>v. f ''filterType'' = Some v \<and> v \<noteq> JStr ''PRICE_FILTER''"
  shows "validate_price b symbol p = ((True, [Lit ''No PRICE_FILTER found''], p), bi)"
proof -
  have "find_filter ''PRICE_FILTER'' fs = Inr None"
    using assms(3) by (simp add: find_filter_none)
  then show ?thesis
    by (simp add: validate_price_def validate_price_try_def assms(1,2) price_filter_loop_find
        bind_err_def)
qed

lemma validate_quantity_skipped:
  "fst (validate_quantity_try b symbol q) = Inl e \<Longrightarrow>
     fst (validate_quantity b symbol q) = (True, [Lit ''Validation skipped''], q)"
  by (auto simp add: validate_quantity_def split: prod.splits sum.splits)

lemma validate_price_skipped:
  "fst (validate_price_try b symbol p) = Inl e \<Longrightarrow>
     fst (validate_price b symbol p) = (True, [Lit ''Validation skipped''], p)"
  by (auto simp add: validate_price_def split: prod.splits sum.splits)

lemma try_raises_without_symbol:
  "fst (get_symbol_info b symbol) = Inl e \<Longrightarrow>
     fst (validate_quantity_try b symbol q) = Inl e \<and> fst (validate_price_try b symbol p) = Inl e"
  by (auto simp add: validate_quantity_try_def validate_price_try_def split: prod.splits sum.splits)

section \<open>Lemmas on decimal values\<close>

lemma strip_zeros_val:
  "strip_zeros m e = (m', e') \<Longrightarrow> (of_int m' :: rat) * 10 powi e' = of_int m * 10 powi e"
proof (induction m e rule: strip_zeros.induct)
  case (1 m e)
  show ?case
  proof (cases "m \<noteq> 0 \<and> m mod 10 = 0")
    case True
    then have "strip_zeros (m div 10) (e + 1) = (m', e')"
      using "1.prems" by (simp add: strip_zeros.simps [of m e])
    then have "(of_int m' :: rat) * 10 powi e' = of_int (m div 10) * 10 powi (e + 1)"
      using "1.IH" True by simp
    also have "\<dots> = of_int (m div 10 * 10) * 10 powi e"
      by (simp add: power_int_add_1')
    also have "m div 10 * 10 = m"
      using True by presburger
    finally show ?thesis .
  next
    case False
    then have "(m', e') = (m, e)"
      using "1.prems" by (auto simp add: strip_zeros.simps [of m e])
    then show ?thesis by simp
  qed
qed

lemma dec_val_decimal_of_str: "dec_val (decimal_of_str x) = float_val x"
proof -
  obtain m e where s: "strip_zeros (mant x) (expn x) = (m, e)"
    by (cases "strip_zeros (mant x) (expn x)")
  have v: "(of_int m :: rat) * 10 powi e = float_val x"
    using strip_zeros_val [OF s] by (simp add: float_val_def)
  have whole: "(of_int (m * 10 ^ nat (e + 1)) :: rat) * 10 powi (- 1) = of_int m * 10 powi e"
    if "0 \<le> e"
  proof -
    have "(10 :: rat) ^ nat (e + 1) = 10 powi (e + 1)"
      using that by (simp add: power_int_def)
    then show ?thesis
      by (simp add: power_int_add_1')
  qed
  show ?thesis
    using v whole
    by (auto simp add: decimal_of_str_def s dec_val_def Let_def simp del: of_int_mult of_int_power)
qed

lemma trunc_div_exact: "0 < d \<Longrightarrow> trunc_div (k * d) d = k"
  by (cases "0 \<le> k * d") (auto simp add: trunc_div_def zero_le_mult_iff
      simp flip: mult_minus_left)

lemma quantize_aligned:
  assumes "dec_val a = of_int k * dec_val b" and "quantize_round_down a b = Inr d"
  shows "dec_val d = dec_val a"
proof (cases "coeff a = 0")
  case True
  then show ?thesis
    using assms(2) by (auto simp add: quantize_round_down_def dec_val_def Let_def split: if_splits)
next
  case nz: False
  show ?thesis
  proof (cases "expo b \<le> expo a")
    case True
    then have d: "d = Decimal (coeff a * 10 ^ nat (expo a - expo b)) (expo b)"
      using assms(2) nz by (auto simp add: quantize_round_down_def Let_def split: if_splits)
    have "(10 :: rat) ^ nat (expo a - expo b) = 10 powi (expo a - expo b)"
      using True by (simp add: power_int_def)
    then have "(of_int (coeff a * 10 ^ nat (expo a - expo b)) :: rat) * 10 powi expo b
        = of_int (coeff a) * (10 powi (expo a - expo b) * 10 powi expo b)"
      by simp
    also have "(10 :: rat) powi (expo a - expo b) * 10 powi expo b = 10 powi expo a"
      by (simp flip: power_int_add)
    finally show ?thesis by (simp add: d dec_val_def)
  next
    case False
    define n where "n = nat (expo b - expo a)"
    have d: "d = Decimal (trunc_div (coeff a) (10 ^ n)) (expo b)"
      using assms(2) nz False
      by (auto simp add: quantize_round_down_def Let_def n_def split: if_splits)
    have p: "(10 :: rat) powi expo b = 10 powi expo a * 10 ^ n"
    proof -
      have "(10 :: rat) ^ n = 10 powi (expo b - expo a)"
        using False by (simp add: power_int_def n_def)
      then show ?thesis by (simp flip: power_int_add)
    qed
    have "(of_int (coeff a) :: rat) * 10 powi expo a
        = of_int k * of_int (coeff b) * (10 powi expo a * 10 ^ n)"
      using assms(1) by (simp add: dec_val_def p)
    then have "(of_int (coeff a) :: rat) = of_int (k * coeff b * 10 ^ n)"
      by simp
    then have c: "coeff a = k * coeff b * 10 ^ n"
      by (simp only: of_int_eq_iff)
    have "trunc_div (coeff a) (10 ^ n) = k * coeff b"
      unfolding c by (rule trunc_div_exact) simp
    then have "dec_val d = of_int (k * coeff b) * 10 powi expo b"
      by (simp add: d dec_val_def)
    then show ?thesis
      using assms(1) by (simp add: dec_val_def)
  qed
qed

lemma float_val_float_of_decimal: "float_val (float_of_decimal d) = dec_val d"
  by (simp add: float_val_def float_of_decimal_def dec_val_def)

lemma snap_aligned:
  assumes "float_val v = of_int k * float_val st"
  shows "fst (case quantize_round_down (decimal_of_str v) (decimal_of_str st) of
                Inl e \<Rightarrow> (True, [Lit ''Validation skipped''], v)
              | Inr d \<Rightarrow> (True, [Lit ''Valid''], float_of_decimal d))
       \<and> float_val (snd (snd (case quantize_round_down (decimal_of_str v) (decimal_of_str st) of
                Inl e \<Rightarrow> (True, [Lit ''Validation skipped''], v)
              | Inr d \<Rightarrow> (True, [Lit ''Valid''], float_of_decimal d)))) = float_val v"
proof (cases "quantize_round_down (decimal_of_str v) (decimal_of_str st)")
  case (Inl e)
  then show ?thesis by simp
next
  case (Inr d)
  have "dec_val (decimal_of_str v) = of_int k * dec_val (decimal_of_str st)"
    using assms by (simp add: dec_val_decimal_of_str)
  then have "dec_val d = dec_val (decimal_of_str v)"
    using Inr by (rule quantize_aligned)
  then show ?thesis
    by (simp add: Inr float_val_float_of_decimal dec_val_decimal_of_str)
qed

lemma quantize_exponent:
  "quantize_round_down a b = Inr d \<Longrightarrow> expo d = expo b"
  by (auto simp add: quantize_round_down_def Let_def split: if_splits)

lemma quantize_rounds_down:
  assumes "quantize_round_down a b = Inr d" and "0 \<le> coeff a"
  shows "dec_val d \<le> dec_val a \<and> dec_val a - dec_val d < 10 powi expo b
    \<and> dec_val d = of_int (coeff d) * 10 powi expo b"
proof -
  have grid: "dec_val d = of_int (coeff d) * 10 powi expo b"
    using quantize_exponent [OF assms(1)] by (simp add: dec_val_def)
  have pos: "(0 :: rat) < 10 powi expo b" by simp
  show ?thesis
  proof (cases "coeff a = 0 \<or> expo b \<le> expo a")
    case True
    have "dec_val d = dec_val a"
    proof (cases "coeff a = 0")
      case True
      then show ?thesis
        using assms(1)
        by (auto simp add: quantize_round_down_def dec_val_def Let_def split: if_splits)
    next
      case False
      then have le: "expo b \<le> expo a" using True by simp
      have d: "d = Decimal (coeff a * 10 ^ nat (expo a - expo b)) (expo b)"
        using assms(1) False le
        by (auto simp add: quantize_round_down_def Let_def split: if_splits)
      have "(10 :: rat) ^ nat (expo a - expo b) = 10 powi (expo a - expo b)"
        using le by (simp add: power_int_def)
      then have "(of_int (coeff a * 10 ^ nat (expo a - expo b)) :: rat) * 10 powi expo b
          = of_int (coeff a) * (10 powi (expo a - expo b) * 10 powi expo b)"
        by simp
      also have "(10 :: rat) powi (expo a - expo b) * 10 powi expo b = 10 powi expo a"
        by (simp flip: power_int_add)
      finally show ?thesis by (simp add: d dec_val_def)
    qed
    then show ?thesis using grid pos by simp
  next
    case False
    define n where "n = nat (expo b - expo a)"
    define c where "c = coeff a"
    have d: "d = Decimal (c div 10 ^ n) (expo b)"
      using assms False
      by (auto simp add: quantize_round_down_def trunc_div_def Let_def n_def c_def split: if_splits)
    have p: "(10 :: rat) powi expo b = 10 powi expo a * 10 ^ n"
    proof -
      have "(10 :: rat) ^ n = 10 powi (expo b - expo a)"
        using False by (simp add: power_int_def n_def)
      then show ?thesis by (simp flip: power_int_add)
    qed
    have split: "c = c div 10 ^ n * 10 ^ n + c mod 10 ^ n"
      by (rule div_mult_mod_eq [symmetric])
    have m: "0 \<le> c mod 10 ^ n" "c mod 10 ^ n < 10 ^ n"
      by simp_all
    have va: "dec_val a = (of_int (c div 10 ^ n * 10 ^ n) + of_int (c mod 10 ^ n)) * 10 powi expo a"
      unfolding dec_val_def c_def [symmetric] by (subst split) (simp only: of_int_add)
    have vd: "dec_val d = of_int (c div 10 ^ n * 10 ^ n) * 10 powi expo a"
      by (simp add: d dec_val_def p)
    have diff: "dec_val a - dec_val d = of_int (c mod 10 ^ n) * 10 powi expo a"
      unfolding va vd by (simp add: algebra_simps)
    have e: "(0 :: rat) < 10 powi expo a" by simp
    have "(of_int (c mod 10 ^ n) :: rat) < of_int (10 ^ n)"
      using m(2) by (simp only: of_int_less_iff)
    then have lt: "(of_int (c mod 10 ^ n) :: rat) * 10 powi expo a < 10 ^ n * 10 powi expo a"
      using e by simp
    have "(0 :: rat) \<le> of_int (c mod 10 ^ n)"
      using m(1) by (simp only: of_int_0_le_iff)
    then have ge: "(0 :: rat) \<le> of_int (c mod 10 ^ n) * 10 powi expo a"
      using e by simp
    have "dec_val d \<le> dec_val a"
      using diff ge by linarith
    moreover have "dec_val a - dec_val d < 10 powi expo b"
      using diff lt by (simp only: p mult.commute)
    ultimately show ?thesis
      using grid by blast
  qed
qed

lemma decimal_of_str_power_of_ten:
  "e < 0 \<Longrightarrow> decimal_of_str (Float 1 e) = Decimal 1 e"
  by (simp add: decimal_of_str_def ndigits_def ndigits_nat.simps strip_zeros.simps)

lemma decimal_of_str_sign: "0 \<le> mant v \<Longrightarrow> 0 \<le> coeff (decimal_of_str v)"
proof -
  assume nn: "0 \<le> mant v"
  obtain m e where s: "strip_zeros (mant v) (expn v) = (m, e)"
    by (cases "strip_zeros (mant v) (expn v)")
  have "(of_int m :: rat) * 10 powi e = of_int (mant v) * 10 powi (expn v)"
    by (rule strip_zeros_val [OF s])
  moreover have "(0 :: rat) \<le> of_int (mant v) * 10 powi (expn v)"
    using nn by simp
  ultimately have "(0 :: rat) \<le> of_int m * 10 powi e" by simp
  moreover have "(0 :: rat) < 10 powi e" by simp
  ultimately have "(0 :: rat) \<le> of_int m"
    by (auto simp add: zero_le_mult_iff)
  then have "0 \<le> m" by (simp only: of_int_0_le_iff)
  then show ?thesis
    by (simp add: decimal_of_str_def s Let_def)
qed

section \<open>More of the sample exchange\<close>

lemma sample_btc_info: "get_symbol_info sample_bot ''BTCUSDT'' = (Inr btc_info, sample_bot)"
  by (rule cached_symbol_info) (simp add: sample_bot_def)

lemma sample_doge_info: "get_symbol_info sample_bot ''DOGEUSDT'' = (Inr doge_info, sample_bot)"
  by (rule cached_symbol_info) (simp add: sample_bot_def)

lemma sample_bare_info: "get_symbol_info sample_bot ''XYZUSDT'' = (Inr bare_info, sample_bot)"
  by (rule cached_symbol_info) (simp add: sample_bot_def)

lemma sample_lot_only_info: "get_symbol_info sample_bot ''LOTUSDT'' = (Inr lot_only_info, sample_bot)"
  by (rule cached_symbol_info) (simp add: sample_bot_def)

lemma btc_filters: "info_filters btc_info = Some [btc_price_filter, btc_lot_size]"
  by (simp add: btc_info_def)

lemma doge_filters: "info_filters doge_info = Some [doge_price_filter, doge_lot_size]"
  by (simp add: doge_info_def)

lemma btc_lot_found: "find_filter ''LOT_SIZE'' [btc_price_filter, btc_lot_size] = Inr (Some btc_lot_size)"
  by (simp add: btc_price_filter_def btc_lot_size_def getitem_def bind_err_def)

lemma btc_price_found:
  "find_filter ''PRICE_FILTER'' [btc_price_filter, btc_lot_size] = Inr (Some btc_price_filter)"
  by (simp add: btc_price_filter_def getitem_def bind_err_def)

lemma doge_price_found:
  "find_filter ''PRICE_FILTER'' [doge_price_filter, doge_lot_size] = Inr (Some doge_price_filter)"
  by (simp add: doge_price_filter_def getitem_def bind_err_def)

lemma btc_lot_bounds:
  "read_bounds btc_lot_size ''minQty'' ''maxQty'' ''stepSize''
     = Inr (Float 1 (-3), Float 1000 0, Float 1 (-3))"
  by (simp add: read_bounds_def btc_lot_size_def read_defs)

lemma btc_price_bounds:
  "read_bounds btc_price_filter ''minPrice'' ''maxPrice'' ''tickSize''
     = Inr (Float 100 0, Float 0 0, Float 1 (-1))"
  by (simp add: read_bounds_def btc_price_filter_def read_defs)

lemma doge_price_bounds:
  "read_bounds doge_price_filter ''minPrice'' ''maxPrice'' ''tickSize''
     = Inr (Float 1 (-3), Float 30 0, Float 1 (-3))"
  by (simp add: read_bounds_def doge_price_filter_def read_defs)

lemma flat_amount: "bind_err (getitem flat_position ''positionAmt'') py_float = Inr (Float 0 0)"
  by (simp add: flat_position_def read_defs)

lemma short_amount: "bind_err (getitem short_position ''positionAmt'') py_float = Inr (Float (-5) (-1))"
  by (simp add: short_position_def read_defs)

lemma flat_entry: "\<exists>r. position_entry flat_position = Inr r"
  by (simp add: position_entry_def flat_position_def py_int_def read_defs)

lemma short_entry: "\<exists>r. position_entry short_position = Inr r"
  by (simp add: position_entry_def short_position_def py_int_def read_defs)

section \<open>Missing filters and errors during validation\<close>

text \<open>
  C7. When the symbol's filters hold no item of the wanted type, validation returns
  success, the message that no such filter was found, and the raw value unchanged. When
  anything raises inside the \<^verbatim>\<open>try\<close> block (the symbol lookup, a missing key, a number
  that does not parse, \<^verbatim>\<open>quantize\<close>), validation returns success, the message
  \<^verbatim>\<open>Validation skipped\<close>, and the raw value unchanged. Both hold for quantity and for
  price.
\<close>

theorem validation_passes_raw_value_through:
  "(get_symbol_info b symbol = (Inr info, bi) \<and> info_filters info = Some fs
      \<and> (\<forall>f\<in>set fs. \<exists>t. f ''filterType'' = Some t \<and> t \<noteq> JStr ''LOT_SIZE'') \<longrightarrow>
     validate_quantity b symbol v = ((True, [Lit ''No LOT_SIZE filter found''], v), bi))
   \<and> (get_symbol_info b symbol = (Inr info, bi) \<and> info_filters info = Some fs
      \<and> (\<forall>f\<in>set fs. \<exists>t. f ''filterType'' = Some t \<and> t \<noteq> JStr ''PRICE_FILTER'') \<longrightarrow>
     validate_price b symbol v = ((True, [Lit ''No PRICE_FILTER found''], v), bi))
   \<and> (fst (validate_quantity_try b symbol v) = Inl e \<longrightarrow>
     fst (validate_quantity b symbol v) = (True, [Lit ''Validation skipped''], v))
   \<and> (fst (validate_price_try b symbol v) = Inl e \<longrightarrow>
     fst (validate_price b symbol v) = (True, [Lit ''Validation skipped''], v))
   \<and> (fst (get_symbol_info b symbol) = Inl e \<longrightarrow>
     fst (validate_quantity b symbol v) = (True, [Lit ''Validation skipped''], v)
     \<and> fst (validate_price b symbol v) = (True, [Lit ''Validation skipped''], v))"
  using validate_quantity_no_filter [of b symbol info bi fs v]
    validate_price_no_filter [of b symbol info bi fs v]
    validate_quantity_skipped [of b symbol v e] validate_price_skipped [of b symbol v e]
    try_raises_without_symbol [of b symbol e v v]
  by blast

theorem validation_passes_raw_value_through_witness:
  "validate_quantity sample_bot ''XYZUSDT'' (Float 5 0)
      = ((True, [Lit ''No LOT_SIZE filter found''], Float 5 0), sample_bot)
   \<and> validate_price sample_bot ''LOTUSDT'' (Float 5 0)
      = ((True, [Lit ''No PRICE_FILTER found''], Float 5 0), sample_bot)
   \<and> fst (validate_quantity_try sample_bot ''BADUSDT'' (Float 5 0)) = Inl (KeyError ''stepSize'')
   \<and> fst (validate_quantity sample_bot ''BADUSDT'' (Float 5 0))
      = (True, [Lit ''Validation skipped''], Float 5 0)
   \<and> fst (get_symbol_info fresh_bot ''NOPEUSDT'')
      = Inl (ValueError [Lit ''Symbol '', Lit ''NOPEUSDT'', Lit '' not found''])
   \<and> fst (validate_quantity fresh_bot ''NOPEUSDT'' (Float 5 0))
      = (True, [Lit ''Validation skipped''], Float 5 0)
   \<and> fst (validate_price fresh_bot ''NOPEUSDT'' (Float 5 0))
      = (True, [Lit ''Validation skipped''], Float 5 0)"
proof -
  have bare: "info_filters bare_info = Some [btc_price_filter]
      \<and> (\<forall>f\<in>set [btc_price_filter]. \<exists>t. f ''filterType'' = Some t \<and> t \<noteq> JStr ''LOT_SIZE'')"
    by (simp add: bare_info_def btc_price_filter_def)
  have lot: "info_filters lot_only_info = Some [btc_lot_size]
      \<and> (\<forall>f\<in>set [btc_lot_size]. \<exists>t. f ''filterType'' = Some t \<and> t \<noteq> JStr ''PRICE_FILTER'')"
    by (simp add: lot_only_info_def btc_lot_size_def)
  have broken: "fst (validate_quantity_try sample_bot ''BADUSDT'' (Float 5 0))
      = Inl (KeyError ''stepSize'')"
    by (simp add: validate_quantity_try_def get_symbol_info_def sample_bot_def broken_info_def
        check_lot_size_def btc_price_filter_def broken_lot_size_def read_defs)
  have unknown: "fst (get_symbol_info fresh_bot ''NOPEUSDT'')
      = Inl (ValueError [Lit ''Symbol '', Lit ''NOPEUSDT'', Lit '' not found''])"
    by (simp add: get_symbol_info_def fresh_bot_def sample_client_def btc_info_def doge_info_def
        broken_info_def bare_info_def lot_only_info_def)
  note all = validation_passes_raw_value_through
  show ?thesis
    using all [THEN conjunct1, THEN mp, OF conjI, OF sample_bare_info bare, of "Float 5 0"]
      all [THEN conjunct2, THEN conjunct1, THEN mp, OF conjI, OF sample_lot_only_info lot,
        of "Float 5 0"]
      all [THEN conjunct2, THEN conjunct2, THEN conjunct1, THEN mp, OF broken]
      all [THEN conjunct2, THEN conjunct2, THEN conjunct2, THEN conjunct2, THEN mp, OF unknown,
        of "Float 5 0"]
      broken unknown
    by simp
qed

section \<open>Bounds\<close>

text \<open>
  C3. The claim: every value below the minimum is refused with the value unchanged,
  and every value above a maximum that is above zero is refused citing the maximum. The
  lot-size filter of \<^verbatim>\<open>BADUSDT\<close> states the minimum 0.001 and lacks its step: the three
  numbers are read before any comparison, reading the step raises, and the quantity
  0.0001 is accepted. A filter with the minimum 10 and the maximum 5 refuses the
  quantity 7, which is above its maximum, citing the minimum.
\<close>

theorem bounds_claim_counterexample:
  "bind_err (getitem broken_lot_size ''minQty'') py_float = Inr (Float 1 (-3))
   \<and> float_lt (Float 1 (-4)) (Float 1 (-3))
   \<and> validate_quantity sample_bot ''BADUSDT'' (Float 1 (-4))
        = ((True, [Lit ''Validation skipped''], Float 1 (-4)), sample_bot)
   \<and> read_bounds inverted_lot_size ''minQty'' ''maxQty'' ''stepSize''
        = Inr (Float 10 0, Float 5 0, Float 1 (-1))
   \<and> float_gt (Float 7 0) (Float 5 0) \<and> float_gt (Float 5 0) (Float 0 0)
   \<and> validate_quantity inverted_bot ''INVUSDT'' (Float 7 0)
        = ((False, [Lit ''Quantity '', Num (Float 7 0), Lit '' below minimum '', Num (Float 10 0)],
             Float 7 0), inverted_bot)"
proof -
  have c: "symbol_info_cache sample_bot ''BADUSDT'' = Some broken_info"
    by (simp add: sample_bot_def)
  have f: "info_filters broken_info = Some [btc_price_filter, broken_lot_size]"
    by (simp add: broken_info_def)
  have l: "lot_size_loop [btc_price_filter, broken_lot_size] (Float 1 (-4))
      = Inl (KeyError ''stepSize'')"
    by (simp add: check_lot_size_def btc_price_filter_def broken_lot_size_def read_defs)
  have q: "validate_quantity sample_bot ''BADUSDT'' (Float 1 (-4))
      = ((True, [Lit ''Validation skipped''], Float 1 (-4)), sample_bot)"
    unfolding validate_quantity_cached [OF c f] l by simp
  have m: "bind_err (getitem broken_lot_size ''minQty'') py_float = Inr (Float 1 (-3))"
    by (simp add: broken_lot_size_def read_defs)
  have i: "get_symbol_info inverted_bot ''INVUSDT'' = (Inr inverted_info, inverted_bot)"
    by (rule cached_symbol_info) (simp add: inverted_bot_def)
  have fi: "info_filters inverted_info = Some [inverted_lot_size]"
    by (simp add: inverted_info_def)
  have fnd: "find_filter ''LOT_SIZE'' [inverted_lot_size] = Inr (Some inverted_lot_size)"
    by (simp add: inverted_lot_size_def getitem_def bind_err_def)
  have rb: "read_bounds inverted_lot_size ''minQty'' ''maxQty'' ''stepSize''
      = Inr (Float 10 0, Float 5 0, Float 1 (-1))"
    by (simp add: read_bounds_def inverted_lot_size_def read_defs)
  have cmp: "float_lt (Float 1 (-4)) (Float 1 (-3)) \<and> float_gt (Float 7 0) (Float 5 0)
      \<and> float_gt (Float 5 0) (Float 0 0) \<and> float_lt (Float 7 0) (Float 10 0)"
    by (simp add: float_lt_def float_gt_def float_val_def)
  have inv: "validate_quantity inverted_bot ''INVUSDT'' (Float 7 0)
      = ((False, [Lit ''Quantity '', Num (Float 7 0), Lit '' below minimum '', Num (Float 10 0)],
           Float 7 0), inverted_bot)"
    using cmp by (simp add: validate_quantity_rule [OF i fi fnd rb])
  show ?thesis
    using q m rb cmp inv by simp
qed

text \<open>
  C3, amended. With the symbol's filter found and all three of its numbers read: a
  value below the minimum is refused with the message citing the minimum, and the value
  comes back unchanged; a value above the maximum is refused and comes back unchanged,
  for a price only when the maximum is above zero, and the message cites the maximum
  when the value is not also below the minimum, which is checked first; a price filter
  whose maximum is zero refuses no price that is not below the minimum.
\<close>

theorem out_of_bounds_is_refused:
  assumes "get_symbol_info b symbol = (Inr info, bi)" and "info_filters info = Some fs"
  shows "(find_filter ''LOT_SIZE'' fs = Inr (Some f)
          \<and> read_bounds f ''minQty'' ''maxQty'' ''stepSize'' = Inr (mn, mx, st) \<longrightarrow>
            (float_lt v mn \<longrightarrow> validate_quantity b symbol v =
               ((False, [Lit ''Quantity '', Num v, Lit '' below minimum '', Num mn], v), bi))
          \<and> (\<not> float_lt v mn \<and> float_gt v mx \<longrightarrow> validate_quantity b symbol v =
               ((False, [Lit ''Quantity '', Num v, Lit '' above maximum '', Num mx], v), bi))
          \<and> (float_gt v mx \<longrightarrow> \<not> fst (fst (validate_quantity b symbol v))
               \<and> snd (snd (fst (validate_quantity b symbol v))) = v))
       \<and> (find_filter ''PRICE_FILTER'' fs = Inr (Some f)
          \<and> read_bounds f ''minPrice'' ''maxPrice'' ''tickSize'' = Inr (mn, mx, st) \<longrightarrow>
            (float_lt v mn \<longrightarrow> validate_price b symbol v =
               ((False, [Lit ''Price '', Num v, Lit '' below minimum '', Num mn], v), bi))
          \<and> (\<not> float_lt v mn \<and> float_gt mx (Float 0 0) \<and> float_gt v mx \<longrightarrow>
               validate_price b symbol v =
               ((False, [Lit ''Price '', Num v, Lit '' above maximum '', Num mx], v), bi))
          \<and> (float_gt mx (Float 0 0) \<and> float_gt v mx \<longrightarrow> \<not> fst (fst (validate_price b symbol v))
               \<and> snd (snd (fst (validate_price b symbol v))) = v)
          \<and> (float_val mx = 0 \<and> \<not> float_lt v mn \<longrightarrow> fst (fst (validate_price b symbol v))))"
proof (intro conjI impI)
  assume h: "find_filter ''LOT_SIZE'' fs = Inr (Some f)
      \<and> read_bounds f ''minQty'' ''maxQty'' ''stepSize'' = Inr (mn, mx, st)"
  note r = validate_quantity_rule [OF assms h [THEN conjunct1] h [THEN conjunct2], of v]
  show "validate_quantity b symbol v =
      ((False, [Lit ''Quantity '', Num v, Lit '' below minimum '', Num mn], v), bi)"
    if "float_lt v mn"
    using that by (simp add: r)
  show "validate_quantity b symbol v =
      ((False, [Lit ''Quantity '', Num v, Lit '' above maximum '', Num mx], v), bi)"
    if "\<not> float_lt v mn \<and> float_gt v mx"
    using that by (simp add: r)
  show "\<not> fst (fst (validate_quantity b symbol v))" if "float_gt v mx"
    using that by (simp add: r)
  show "snd (snd (fst (validate_quantity b symbol v))) = v" if "float_gt v mx"
    using that by (simp add: r)
next
  assume h: "find_filter ''PRICE_FILTER'' fs = Inr (Some f)
      \<and> read_bounds f ''minPrice'' ''maxPrice'' ''tickSize'' = Inr (mn, mx, st)"
  note r = validate_price_rule [OF assms h [THEN conjunct1] h [THEN conjunct2], of v]
  show "validate_price b symbol v =
      ((False, [Lit ''Price '', Num v, Lit '' below minimum '', Num mn], v), bi)"
    if "float_lt v mn"
    using that by (simp add: r)
  show "validate_price b symbol v =
      ((False, [Lit ''Price '', Num v, Lit '' above maximum '', Num mx], v), bi)"
    if "\<not> float_lt v mn \<and> float_gt mx (Float 0 0) \<and> float_gt v mx"
    using that by (simp add: r)
  show "\<not> fst (fst (validate_price b symbol v))" if "float_gt mx (Float 0 0) \<and> float_gt v mx"
    using that by (simp add: r)
  show "snd (snd (fst (validate_price b symbol v))) = v"
    if "float_gt mx (Float 0 0) \<and> float_gt v mx"
    using that by (simp add: r)
  show "fst (fst (validate_price b symbol v))" if "float_val mx = 0 \<and> \<not> float_lt v mn"
    using that by (simp add: r float_gt_def float_val_def split: sum.splits)
qed

theorem out_of_bounds_is_refused_witness:
  "validate_quantity sample_bot ''BTCUSDT'' (Float 5 (-4))
      = ((False, [Lit ''Quantity '', Num (Float 5 (-4)), Lit '' below minimum '', Num (Float 1 (-3))],
          Float 5 (-4)), sample_bot)
   \<and> validate_quantity sample_bot ''BTCUSDT'' (Float 2000 0)
      = ((False, [Lit ''Quantity '', Num (Float 2000 0), Lit '' above maximum '', Num (Float 1000 0)],
          Float 2000 0), sample_bot)
   \<and> validate_price sample_bot ''BTCUSDT'' (Float 995 (-1))
      = ((False, [Lit ''Price '', Num (Float 995 (-1)), Lit '' below minimum '', Num (Float 100 0)],
          Float 995 (-1)), sample_bot)
   \<and> validate_price sample_bot ''DOGEUSDT'' (Float 31 0)
      = ((False, [Lit ''Price '', Num (Float 31 0), Lit '' above maximum '', Num (Float 30 0)],
          Float 31 0), sample_bot)
   \<and> fst (fst (validate_price sample_bot ''BTCUSDT'' (Float 1000000000 0)))"
proof -
  note btc = out_of_bounds_is_refused [OF sample_btc_info btc_filters]
  note doge = out_of_bounds_is_refused [OF sample_doge_info doge_filters]
  note q = btc [THEN conjunct1, THEN mp, OF conjI, OF btc_lot_found btc_lot_bounds]
  note p = btc [THEN conjunct2, THEN mp, OF conjI, OF btc_price_found btc_price_bounds]
  note d = doge [THEN conjunct2, THEN mp, OF conjI, OF doge_price_found doge_price_bounds]
  have low: "float_lt (Float 5 (-4)) (Float 1 (-3))"
    and high: "\<not> float_lt (Float 2000 0) (Float 1 (-3)) \<and> float_gt (Float 2000 0) (Float 1000 0)"
    and plow: "float_lt (Float 995 (-1)) (Float 100 0)"
    and phigh: "\<not> float_lt (Float 31 0) (Float 1 (-3)) \<and> float_gt (Float 30 0) (Float 0 0)
        \<and> float_gt (Float 31 0) (Float 30 0)"
    and open_end: "float_val (Float 0 0) = 0 \<and> \<not> float_lt (Float 1000000000 0) (Float 100 0)"
    by (simp_all add: float_lt_def float_gt_def float_val_def)
  show ?thesis
    using q [THEN conjunct1, THEN mp, OF low] q [THEN conjunct2, THEN conjunct1, THEN mp, OF high]
      p [THEN conjunct1, THEN mp, OF plow] d [THEN conjunct2, THEN conjunct1, THEN mp, OF phigh]
      p [THEN conjunct2, THEN conjunct2, THEN conjunct2, THEN mp, OF open_end]
    by simp
qed

section \<open>Values already on the grid\<close>

text \<open>
  C4. With the symbol's filter found and its three numbers read: a value within the
  bounds that is a whole multiple of the step is accepted, and the adjusted value equals
  it. This holds for quantity and for price.
\<close>

theorem aligned_value_is_kept:
  assumes "get_symbol_info b symbol = (Inr info, bi)" and "info_filters info = Some fs"
      and "float_val v = of_int k * float_val st"
  shows "(find_filter ''LOT_SIZE'' fs = Inr (Some f)
          \<and> read_bounds f ''minQty'' ''maxQty'' ''stepSize'' = Inr (mn, mx, st)
          \<and> \<not> float_lt v mn \<and> \<not> float_gt v mx \<longrightarrow>
            fst (fst (validate_quantity b symbol v))
            \<and> float_val (snd (snd (fst (validate_quantity b symbol v)))) = float_val v)
       \<and> (find_filter ''PRICE_FILTER'' fs = Inr (Some f)
          \<and> read_bounds f ''minPrice'' ''maxPrice'' ''tickSize'' = Inr (mn, mx, st)
          \<and> \<not> float_lt v mn \<and> \<not> (float_gt mx (Float 0 0) \<and> float_gt v mx) \<longrightarrow>
            fst (fst (validate_price b symbol v))
            \<and> float_val (snd (snd (fst (validate_price b symbol v)))) = float_val v)"
proof (intro conjI impI)
  assume h: "find_filter ''LOT_SIZE'' fs = Inr (Some f)
      \<and> read_bounds f ''minQty'' ''maxQty'' ''stepSize'' = Inr (mn, mx, st)
      \<and> \<not> float_lt v mn \<and> \<not> float_gt v mx"
  have r: "fst (validate_quantity b symbol v) =
      (case quantize_round_down (decimal_of_str v) (decimal_of_str st) of
         Inl e \<Rightarrow> (True, [Lit ''Validation skipped''], v)
       | Inr d \<Rightarrow> (True, [Lit ''Valid''], float_of_decimal d))"
    using h validate_quantity_rule [OF assms(1,2), of f mn mx st v] by simp
  show "fst (fst (validate_quantity b symbol v))"
    unfolding r using snap_aligned [OF assms(3)] by blast
  show "float_val (snd (snd (fst (validate_quantity b symbol v)))) = float_val v"
    unfolding r using snap_aligned [OF assms(3)] by blast
next
  assume h: "find_filter ''PRICE_FILTER'' fs = Inr (Some f)
      \<and> read_bounds f ''minPrice'' ''maxPrice'' ''tickSize'' = Inr (mn, mx, st)
      \<and> \<not> float_lt v mn \<and> \<not> (float_gt mx (Float 0 0) \<and> float_gt v mx)"
  have r: "fst (validate_price b symbol v) =
      (case quantize_round_down (decimal_of_str v) (decimal_of_str st) of
         Inl e \<Rightarrow> (True, [Lit ''Validation skipped''], v)
       | Inr d \<Rightarrow> (True, [Lit ''Valid''], float_of_decimal d))"
    using h validate_price_rule [OF assms(1,2), of f mn mx st v] by auto
  show "fst (fst (validate_price b symbol v))"
    unfolding r using snap_aligned [OF assms(3)] by blast
  show "float_val (snd (snd (fst (validate_price b symbol v)))) = float_val v"
    unfolding r using snap_aligned [OF assms(3)] by blast
qed

theorem aligned_value_is_kept_witness:
  "float_val (Float 2 (-3)) = of_int 2 * float_val (Float 1 (-3))
   \<and> fst (fst (validate_quantity sample_bot ''BTCUSDT'' (Float 2 (-3))))
   \<and> float_val (snd (snd (fst (validate_quantity sample_bot ''BTCUSDT'' (Float 2 (-3))))))
       = float_val (Float 2 (-3))
   \<and> float_val (Float 1234 (-1)) = of_int 1234 * float_val (Float 1 (-1))
   \<and> fst (fst (validate_price sample_bot ''BTCUSDT'' (Float 1234 (-1))))
   \<and> float_val (snd (snd (fst (validate_price sample_bot ''BTCUSDT'' (Float 1234 (-1))))))
       = float_val (Float 1234 (-1))"
proof -
  have aq: "float_val (Float 2 (-3)) = of_int 2 * float_val (Float 1 (-3))"
    and ap: "float_val (Float 1234 (-1)) = of_int 1234 * float_val (Float 1 (-1))"
    by (simp_all add: float_val_def)
  have inq: "\<not> float_lt (Float 2 (-3)) (Float 1 (-3)) \<and> \<not> float_gt (Float 2 (-3)) (Float 1000 0)"
    and inp: "\<not> float_lt (Float 1234 (-1)) (Float 100 0)
        \<and> \<not> (float_gt (Float 0 0) (Float 0 0) \<and> float_gt (Float 1234 (-1)) (Float 0 0))"
    by (simp_all add: float_lt_def float_gt_def float_val_def)
  show ?thesis
    using aligned_value_is_kept [OF sample_btc_info btc_filters aq, THEN conjunct1, THEN mp,
        OF conjI, OF btc_lot_found conjI, OF btc_lot_bounds inq]
      aligned_value_is_kept [OF sample_btc_info btc_filters ap, THEN conjunct2, THEN mp,
        OF conjI, OF btc_price_found conjI, OF btc_price_bounds inp]
      aq ap
    by simp
qed

text \<open>
  What the snapping does achieve. \<^verbatim>\<open>quantize\<close> rounds toward zero to the exponent of
  the step as printed. When the step is a power of ten below one (0.1, 0.001, and so
  on), that exponent is the step itself: a value that is not negative, lies within the
  bounds and is reported \<^verbatim>\<open>Valid\<close> comes back as a multiple of the step, not above the
  raw value and less than one step below it.
\<close>

lemma power_of_ten_step_is_honoured:
  assumes "get_symbol_info b symbol = (Inr info, bi)" and "info_filters info = Some fs"
      and "find_filter ''LOT_SIZE'' fs = Inr (Some f)"
      and "read_bounds f ''minQty'' ''maxQty'' ''stepSize'' = Inr (mn, mx, Float 1 e)"
      and "e < 0" and "0 \<le> mant v" and "\<not> float_lt v mn" and "\<not> float_gt v mx"
      and "validate_quantity b symbol v = ((ok, [Lit ''Valid''], a), bi)"
  shows "ok \<and> float_val a \<le> float_val v \<and> float_val v - float_val a < float_val (Float 1 e)
    \<and> (\<exists>k::int. float_val a = of_int k * float_val (Float 1 e))"
proof -
  have r: "(ok, [Lit ''Valid''], a) =
      (case quantize_round_down (decimal_of_str v) (Decimal 1 e) of
         Inl x \<Rightarrow> (True, [Lit ''Validation skipped''], v)
       | Inr d \<Rightarrow> (True, [Lit ''Valid''], float_of_decimal d))"
    using validate_quantity_rule [OF assms(1-4), of v] assms(5,7,8,9)
    by (simp add: decimal_of_str_power_of_ten)
  then obtain d where q: "quantize_round_down (decimal_of_str v) (Decimal 1 e) = Inr d"
    and a: "a = float_of_decimal d" and ok: "ok"
    by (cases "quantize_round_down (decimal_of_str v) (Decimal 1 e)") auto
  have "dec_val d \<le> dec_val (decimal_of_str v)
      \<and> dec_val (decimal_of_str v) - dec_val d < 10 powi expo (Decimal 1 e)
      \<and> dec_val d = of_int (coeff d) * 10 powi expo (Decimal 1 e)"
    by (rule quantize_rounds_down [OF q decimal_of_str_sign [OF assms(6)]])
  moreover have "float_val a = dec_val d"
    by (simp add: a float_val_float_of_decimal)
  moreover have "float_val (Float 1 e) = 10 powi e"
    by (simp add: float_val_def)
  ultimately show ?thesis
    using ok by (auto simp add: dec_val_decimal_of_str)
qed

section \<open>Orders and bounds\<close>

text \<open>
  Once a symbol has been looked up it is cached, so every validation within one builder
  reads the same filters.
\<close>

lemma get_symbol_info_again:
  "get_symbol_info b symbol = (Inr info, bi) \<Longrightarrow> get_symbol_info bi symbol = (Inr info, bi)"
  by (auto simp add: get_symbol_info_def Let_def split: option.splits sum.splits)

lemma validate_quantity_lands:
  assumes "get_symbol_info b symbol = (Inr info, bi)"
  shows "\<exists>ok m a. validate_quantity b symbol q = ((ok, m, a), bi)"
proof -
  have "snd (validate_quantity b symbol q) = bi"
    using assms by (simp add: snd_validate_quantity)
  then show ?thesis
    by (cases "validate_quantity b symbol q") auto
qed

lemma validate_price_lands:
  assumes "get_symbol_info b symbol = (Inr info, bi)"
  shows "\<exists>ok m a. validate_price b symbol p = ((ok, m, a), bi)"
proof -
  have "snd (validate_price b symbol p) = bi"
    using assms by (simp add: snd_validate_price)
  then show ?thesis
    by (cases "validate_price b symbol p") auto
qed

lemma validate_quantity_out_of_bounds:
  assumes "get_symbol_info b symbol = (Inr info, bi)" and "info_filters info = Some fs"
      and "find_filter ''LOT_SIZE'' fs = Inr (Some f)"
      and "read_bounds f ''minQty'' ''maxQty'' ''stepSize'' = Inr (mn, mx, st)"
      and "float_lt q mn \<or> float_gt q mx"
  shows "\<exists>m. validate_quantity b symbol q = ((False, m, q), bi)"
  using assms(5) by (auto simp add: validate_quantity_rule [OF assms(1-4)])

lemma validate_price_out_of_bounds:
  assumes "get_symbol_info b symbol = (Inr info, bi)" and "info_filters info = Some fs"
      and "find_filter ''PRICE_FILTER'' fs = Inr (Some f)"
      and "read_bounds f ''minPrice'' ''maxPrice'' ''tickSize'' = Inr (mn, mx, st)"
      and "float_lt p mn \<or> float_gt mx (Float 0 0) \<and> float_gt p mx"
  shows "\<exists>m. validate_price b symbol p = ((False, m, p), bi)"
  using assms(5) by (auto simp add: validate_price_rule [OF assms(1-4)])

lemma quantity_out_of_bounds_refused:
  assumes "get_symbol_info b symbol = (Inr info, bi)" and "info_filters info = Some fs"
      and "find_filter ''LOT_SIZE'' fs = Inr (Some f)"
      and "read_bounds f ''minQty'' ''maxQty'' ''stepSize'' = Inr (mn, mx, st)"
      and "float_lt quantity mn \<or> float_gt quantity mx"
  shows "refused b (place_market_order b symbol side quantity ro)"
    and "refused b (place_limit_order b symbol side quantity price tif ro)"
    and "refused b (place_stop_limit_order b symbol side quantity price stop_price tif ro)"
    and "refused b (place_stop_market_order b symbol side quantity trigger ro)"
    and "refused b (place_take_profit_order b symbol side quantity trigger limit ro)"
proof -
  obtain m where q: "validate_quantity b symbol quantity = ((False, m, quantity), bi)"
    using validate_quantity_out_of_bounds [OF assms] by blast
  have s: "orders_sent bi = orders_sent b"
    by (rule validate_quantity_sent [OF q])
  show "refused b (place_market_order b symbol side quantity ro)"
    by (simp add: refused_def place_market_order_def q s)
  show "refused b (place_limit_order b symbol side quantity price tif ro)"
    by (simp add: refused_def place_limit_order_def q s)
  show "refused b (place_stop_limit_order b symbol side quantity price stop_price tif ro)"
    by (simp add: refused_def place_stop_limit_order_def q s)
  show "refused b (place_stop_market_order b symbol side quantity trigger ro)"
    by (simp add: refused_def place_stop_market_order_def q s)
  show "refused b (place_take_profit_order b symbol side quantity trigger limit ro)"
    by (simp add: refused_def place_take_profit_order_def q s)
qed

lemma price_out_of_bounds_refused:
  assumes "get_symbol_info b symbol = (Inr info, bi)" and "info_filters info = Some fs"
      and "find_filter ''PRICE_FILTER'' fs = Inr (Some f)"
      and "read_bounds f ''minPrice'' ''maxPrice'' ''tickSize'' = Inr (mn, mx, st)"
      and "float_lt v mn \<or> float_gt mx (Float 0 0) \<and> float_gt v mx"
  shows "refused b (place_limit_order b symbol side quantity v tif ro)"
    and "refused b (place_stop_limit_order b symbol side quantity v stop_price tif ro)"
    and "refused b (place_stop_limit_order b symbol side quantity price v tif ro)"
    and "refused b (place_stop_market_order b symbol side quantity v ro)"
    and "refused b (place_take_profit_order b symbol side quantity v limit ro)"
    and "float_truthy v \<Longrightarrow>
           refused b (place_take_profit_order b symbol side quantity trigger (Some v) ro)"
proof -
  note again = get_symbol_info_again [OF assms(1)]
  obtain okq mq aq where q: "validate_quantity b symbol quantity = ((okq, mq, aq), bi)"
    using validate_quantity_lands [OF assms(1)] by blast
  obtain m where v: "validate_price bi symbol v = ((False, m, v), bi)"
    using validate_price_out_of_bounds [OF again assms(2-5)] by blast
  have any: "\<exists>ok mp a. validate_price bi symbol p = ((ok, mp, a), bi)" for p
    by (rule validate_price_lands [OF again])
  show "refused b (place_limit_order b symbol side quantity v tif ro)"
    using place_limit_order_fields [OF q v, of side tif ro] by (simp add: refused_def)
  show "refused b (place_stop_limit_order b symbol side quantity v stop_price tif ro)"
  proof -
    obtain oks ms ast where s: "validate_price bi symbol stop_price = ((oks, ms, ast), bi)"
      using any by blast
    show ?thesis
      using place_stop_limit_order_fields [OF q v s, of side tif ro] by (simp add: refused_def)
  qed
  show "refused b (place_stop_limit_order b symbol side quantity price v tif ro)"
  proof -
    obtain okp mp ap where p: "validate_price bi symbol price = ((okp, mp, ap), bi)"
      using any by blast
    show ?thesis
      using place_stop_limit_order_fields [OF q p v, of side tif ro] by (simp add: refused_def)
  qed
  show "refused b (place_stop_market_order b symbol side quantity v ro)"
    using place_stop_market_order_fields [OF q v, of side ro] by (simp add: refused_def)
  show "refused b (place_take_profit_order b symbol side quantity v limit ro)"
  proof (cases "if_price limit")
    case None
    show ?thesis
      using place_take_profit_market_fields [OF q v None, of side ro] by (simp add: refused_def)
  next
    case (Some x)
    obtain okx mx ax where x: "validate_price bi symbol x = ((okx, mx, ax), bi)"
      using any by blast
    show ?thesis
      using place_take_profit_limit_fields [OF q v Some x, of side ro] by (simp add: refused_def)
  qed
  show "refused b (place_take_profit_order b symbol side quantity trigger (Some v) ro)"
    if "float_truthy v"
  proof -
    obtain okt mt atr where t: "validate_price bi symbol trigger = ((okt, mt, atr), bi)"
      using any by blast
    have l: "if_price (Some v) = Some v"
      using that by (simp add: if_price_def)
    show ?thesis
      using place_take_profit_limit_fields [OF q t l v, of side ro] by (simp add: refused_def)
  qed
qed

lemma sample_small_quantity:
  "validate_quantity sample_bot ''BTCUSDT'' (Float 5 (-4))
     = ((False, [Lit ''Quantity '', Num (Float 5 (-4)), Lit '' below minimum '', Num (Float 1 (-3))],
          Float 5 (-4)), sample_bot)"
proof -
  have "float_lt (Float 5 (-4)) (Float 1 (-3))"
    by (simp add: float_lt_def float_val_def)
  then show ?thesis
    by (simp add: validate_quantity_rule [OF sample_btc_info btc_filters btc_lot_found btc_lot_bounds])
qed

text \<open>
  C2. The claim: every request that leaves a builder has its quantity and its prices
  bounds-checked and step-aligned, and no builder forwards an unvalidated field. The
  lot-size filter of \<^verbatim>\<open>BADUSDT\<close> states the minimum quantity 0.001 and lacks its step;
  reading the step raises, the validation is skipped, and the market order goes out with
  the quantity 0.0001, below the minimum and never checked.
\<close>

theorem unchecked_quantity_counterexample:
  "bind_err (getitem broken_lot_size ''minQty'') py_float = Inr (Float 1 (-3))
   \<and> float_lt (Float 1 (-4)) (Float 1 (-3))
   \<and> fst (validate_quantity sample_bot ''BADUSDT'' (Float 1 (-4)))
        = (True, [Lit ''Validation skipped''], Float 1 (-4))
   \<and> sent_field ''quantity'' (snd (place_market_order sample_bot ''BADUSDT'' BUY (Float 1 (-4)) False))
        = [Some (JFloat (Float 1 (-4)))]"
proof -
  have c: "symbol_info_cache sample_bot ''BADUSDT'' = Some broken_info"
    by (simp add: sample_bot_def)
  have f: "info_filters broken_info = Some [btc_price_filter, broken_lot_size]"
    by (simp add: broken_info_def)
  have l: "lot_size_loop [btc_price_filter, broken_lot_size] (Float 1 (-4))
      = Inl (KeyError ''stepSize'')"
    by (simp add: check_lot_size_def btc_price_filter_def broken_lot_size_def read_defs)
  have q: "validate_quantity sample_bot ''BADUSDT'' (Float 1 (-4))
      = ((True, [Lit ''Validation skipped''], Float 1 (-4)), sample_bot)"
    unfolding validate_quantity_cached [OF c f] l by simp
  have m: "bind_err (getitem broken_lot_size ''minQty'') py_float = Inr (Float 1 (-3))"
    by (simp add: broken_lot_size_def read_defs)
  have lt: "float_lt (Float 1 (-4)) (Float 1 (-3))"
    by (simp add: float_lt_def float_val_def)
  have s: "sent_field ''quantity'' (snd (place_market_order sample_bot ''BADUSDT'' BUY (Float 1 (-4)) False))
      = [Some (JFloat (Float 1 (-4)))]"
    using q
    by (simp add: place_market_order_def submit_order_def sent_field_def orders_sent_def
        sample_bot_def)
  show ?thesis using q m lt s by simp
qed

text \<open>
  C2, amended. For each of the builders (market, limit, stop-limit, stop-market,
  take-profit without and with a limit price): when \<^verbatim>\<open>_validate_quantity\<close> and
  \<^verbatim>\<open>_validate_price\<close> return \<open>True\<close> for the quantity and for every price the builder
  uses, exactly one request is sent, and its quantity and price fields are the adjusted
  values those calls returned; when one of them returns \<open>False\<close>, the builder raises
  \<^verbatim>\<open>ValueError\<close> with the message of the first failure and sends nothing. Whenever
  the symbol's lot-size filter is found and its three numbers are read, a quantity below
  its minimum or above its maximum makes every builder raise \<^verbatim>\<open>ValueError\<close> and send
  nothing; whenever the price filter is found and read, so does a price, a trigger price
  or a take-profit limit price other than zero that is below its minimum or, the maximum
  being above zero, above its maximum. Only where the filter is missing or cannot be read
  does a raw value go out unchecked.
\<close>

theorem orders_carry_adjusted_values:
  assumes "validate_quantity b symbol quantity = ((okq, mq, aq), bq)"
  shows "(if okq then
            \<exists>params. orders_sent (snd (place_market_order b symbol side quantity ro))
                        = orders_sent b @ [params]
              \<and> params ''quantity'' = Some (JFloat aq)
          else fst (place_market_order b symbol side quantity ro) = Inl (ValueError mq)
            \<and> orders_sent (snd (place_market_order b symbol side quantity ro)) = orders_sent b)
    \<and> (validate_price bq symbol price = ((okp, mp, ap), bp) \<longrightarrow>
         (if okq \<and> okp then
            \<exists>params. orders_sent (snd (place_limit_order b symbol side quantity price tif ro))
                        = orders_sent b @ [params]
              \<and> params ''quantity'' = Some (JFloat aq) \<and> params ''price'' = Some (JFloat ap)
          else fst (place_limit_order b symbol side quantity price tif ro)
                 = Inl (ValueError (if okq then mp else mq))
            \<and> orders_sent (snd (place_limit_order b symbol side quantity price tif ro))
                 = orders_sent b))
    \<and> (validate_price bq symbol price = ((okp, mp, ap), bp)
        \<and> validate_price bp symbol stop_price = ((oks, ms, ast), bs) \<longrightarrow>
         (if okq \<and> okp \<and> oks then
            \<exists>params. orders_sent (snd (place_stop_limit_order b symbol side quantity price
                          stop_price tif ro)) = orders_sent b @ [params]
              \<and> params ''quantity'' = Some (JFloat aq) \<and> params ''price'' = Some (JFloat ap)
              \<and> params ''stopPrice'' = Some (JFloat ast)
          else fst (place_stop_limit_order b symbol side quantity price stop_price tif ro)
                 = Inl (ValueError (if \<not> okq then mq else if \<not> okp then mp else ms))
            \<and> orders_sent (snd (place_stop_limit_order b symbol side quantity price
                 stop_price tif ro)) = orders_sent b))
    \<and> (validate_price bq symbol trigger = ((okt, mt, atr), bt) \<longrightarrow>
         (if okq \<and> okt then
            \<exists>params. orders_sent (snd (place_stop_market_order b symbol side quantity trigger ro))
                        = orders_sent b @ [params]
              \<and> params ''quantity'' = Some (JFloat aq) \<and> params ''stopPrice'' = Some (JFloat atr)
          else fst (place_stop_market_order b symbol side quantity trigger ro)
                 = Inl (ValueError (if okq then mt else mq))
            \<and> orders_sent (snd (place_stop_market_order b symbol side quantity trigger ro))
                 = orders_sent b))
    \<and> (validate_price bq symbol trigger = ((okt, mt, atr), bt) \<and> if_price limit = None \<longrightarrow>
         (if okq \<and> okt then
            \<exists>params. orders_sent (snd (place_take_profit_order b symbol side quantity trigger
                          limit ro)) = orders_sent b @ [params]
              \<and> params ''quantity'' = Some (JFloat aq) \<and> params ''stopPrice'' = Some (JFloat atr)
              \<and> params ''price'' = None
          else fst (place_take_profit_order b symbol side quantity trigger limit ro)
                 = Inl (ValueError (if okq then mt else mq))
            \<and> orders_sent (snd (place_take_profit_order b symbol side quantity trigger limit ro))
                 = orders_sent b))
    \<and> (validate_price bq symbol trigger = ((okt, mt, atr), bt) \<and> if_price limit = Some x
        \<and> validate_price bt symbol x = ((okx, mx, ax), bx) \<longrightarrow>
         (if okq \<and> okt \<and> okx then
            \<exists>params. orders_sent (snd (place_take_profit_order b symbol side quantity trigger
                          limit ro)) = orders_sent b @ [params]
              \<and> params ''quantity'' = Some (JFloat aq) \<and> params ''stopPrice'' = Some (JFloat atr)
              \<and> params ''price'' = Some (JFloat ax)
          else fst (place_take_profit_order b symbol side quantity trigger limit ro)
                 = Inl (ValueError (if \<not> okq then mq else if \<not> okt then mt else mx))
            \<and> orders_sent (snd (place_take_profit_order b symbol side quantity trigger limit ro))
                 = orders_sent b))
    \<and> (get_symbol_info b symbol = (Inr info, bi) \<and> info_filters info = Some fs
        \<and> find_filter ''LOT_SIZE'' fs = Inr (Some fq)
        \<and> read_bounds fq ''minQty'' ''maxQty'' ''stepSize'' = Inr (mnq, mxq, stq)
        \<and> (float_lt quantity mnq \<or> float_gt quantity mxq) \<longrightarrow>
          refused b (place_market_order b symbol side quantity ro)
          \<and> refused b (place_limit_order b symbol side quantity price tif ro)
          \<and> refused b (place_stop_limit_order b symbol side quantity price stop_price tif ro)
          \<and> refused b (place_stop_market_order b symbol side quantity trigger ro)
          \<and> refused b (place_take_profit_order b symbol side quantity trigger limit ro))
    \<and> (get_symbol_info b symbol = (Inr info, bi) \<and> info_filters info = Some fs
        \<and> find_filter ''PRICE_FILTER'' fs = Inr (Some fp)
        \<and> read_bounds fp ''minPrice'' ''maxPrice'' ''tickSize'' = Inr (mnp, mxp, tk)
        \<and> (float_lt v mnp \<or> float_gt mxp (Float 0 0) \<and> float_gt v mxp) \<longrightarrow>
          refused b (place_limit_order b symbol side quantity v tif ro)
          \<and> refused b (place_stop_limit_order b symbol side quantity v stop_price tif ro)
          \<and> refused b (place_stop_limit_order b symbol side quantity price v tif ro)
          \<and> refused b (place_stop_market_order b symbol side quantity v ro)
          \<and> refused b (place_take_profit_order b symbol side quantity v limit ro)
          \<and> (float_truthy v \<longrightarrow>
               refused b (place_take_profit_order b symbol side quantity trigger (Some v) ro)))"
proof -
  note fields = builders_forward_validated_values [OF assms]
  have q: "refused b (place_market_order b symbol side quantity ro)
      \<and> refused b (place_limit_order b symbol side quantity price tif ro)
      \<and> refused b (place_stop_limit_order b symbol side quantity price stop_price tif ro)
      \<and> refused b (place_stop_market_order b symbol side quantity trigger ro)
      \<and> refused b (place_take_profit_order b symbol side quantity trigger limit ro)"
    if "get_symbol_info b symbol = (Inr info, bi) \<and> info_filters info = Some fs
        \<and> find_filter ''LOT_SIZE'' fs = Inr (Some fq)
        \<and> read_bounds fq ''minQty'' ''maxQty'' ''stepSize'' = Inr (mnq, mxq, stq)
        \<and> (float_lt quantity mnq \<or> float_gt quantity mxq)"
    using that
    by (intro conjI quantity_out_of_bounds_refused [of b symbol info bi fs fq mnq mxq stq]) simp_all
  have p: "refused b (place_limit_order b symbol side quantity v tif ro)
      \<and> refused b (place_stop_limit_order b symbol side quantity v stop_price tif ro)
      \<and> refused b (place_stop_limit_order b symbol side quantity price v tif ro)
      \<and> refused b (place_stop_market_order b symbol side quantity v ro)
      \<and> refused b (place_take_profit_order b symbol side quantity v limit ro)
      \<and> (float_truthy v \<longrightarrow>
           refused b (place_take_profit_order b symbol side quantity trigger (Some v) ro))"
    if "get_symbol_info b symbol = (Inr info, bi) \<and> info_filters info = Some fs
        \<and> find_filter ''PRICE_FILTER'' fs = Inr (Some fp)
        \<and> read_bounds fp ''minPrice'' ''maxPrice'' ''tickSize'' = Inr (mnp, mxp, tk)
        \<and> (float_lt v mnp \<or> float_gt mxp (Float 0 0) \<and> float_gt v mxp)"
    using that
    by (intro conjI impI price_out_of_bounds_refused [of b symbol info bi fs fp mnp mxp tk]) simp_all
  note f1 = fields [THEN conjunct1]
  note f2 = fields [THEN conjunct2, THEN conjunct1]
  note f3 = fields [THEN conjunct2, THEN conjunct2, THEN conjunct1]
  note f4 = fields [THEN conjunct2, THEN conjunct2, THEN conjunct2, THEN conjunct1]
  note f5 = fields [THEN conjunct2, THEN conjunct2, THEN conjunct2, THEN conjunct2, THEN conjunct1]
  note f6 = fields [THEN conjunct2, THEN conjunct2, THEN conjunct2, THEN conjunct2, THEN conjunct2]
  show ?thesis
    by (intro conjI; (rule f1 f2 f3 f4 f5 f6 | (rule impI, rule q p, assumption)))
qed

theorem orders_carry_adjusted_values_witness:
  "sent_field ''quantity'' (snd (place_market_order sample_bot ''BTCUSDT'' BUY (Float 19 (-4)) False))
      = [Some (JFloat (Float 1 (-3)))]
   \<and> sent_field ''price'' (snd (place_limit_order sample_bot ''BTCUSDT'' BUY (Float 19 (-4))
        (Float 123456 (-3)) ''GTC'' False)) = [Some (JFloat (Float 1234 (-1)))]
   \<and> sent_field ''stopPrice'' (snd (place_stop_limit_order sample_bot ''BTCUSDT'' BUY (Float 19 (-4))
        (Float 123456 (-3)) (Float 123456 (-3)) ''GTC'' False)) = [Some (JFloat (Float 1234 (-1)))]
   \<and> sent_field ''stopPrice'' (snd (place_stop_market_order sample_bot ''BTCUSDT'' BUY (Float 19 (-4))
        (Float 123456 (-3)) False)) = [Some (JFloat (Float 1234 (-1)))]
   \<and> sent_field ''price'' (snd (place_take_profit_order sample_bot ''BTCUSDT'' BUY (Float 19 (-4))
        (Float 123456 (-3)) None True)) = [None]
   \<and> sent_field ''price'' (snd (place_take_profit_order sample_bot ''BTCUSDT'' BUY (Float 19 (-4))
        (Float 123456 (-3)) (Some (Float 123456 (-3))) True)) = [Some (JFloat (Float 1234 (-1)))]
   \<and> fst (place_limit_order sample_bot ''BTCUSDT'' BUY (Float 19 (-4)) (Float 995 (-1)) ''GTC'' False)
      = Inl (ValueError [Lit ''Price '', Num (Float 995 (-1)), Lit '' below minimum '', Num (Float 100 0)])
   \<and> orders_sent (snd (place_limit_order sample_bot ''BTCUSDT'' BUY (Float 19 (-4)) (Float 995 (-1))
        ''GTC'' False)) = []
   \<and> float_lt (Float 5 (-4)) (Float 1 (-3))
   \<and> refused sample_bot (place_market_order sample_bot ''BTCUSDT'' BUY (Float 5 (-4)) False)
   \<and> refused sample_bot (place_take_profit_order sample_bot ''BTCUSDT'' SELL (Float 5 (-4))
        (Float 123456 (-3)) None True)
   \<and> float_lt (Float 995 (-1)) (Float 100 0)
   \<and> refused sample_bot (place_stop_market_order sample_bot ''BTCUSDT'' SELL (Float 19 (-4))
        (Float 995 (-1)) True)
   \<and> refused sample_bot (place_take_profit_order sample_bot ''BTCUSDT'' SELL (Float 19 (-4))
        (Float 123456 (-3)) (Some (Float 995 (-1))) True)"
proof -
  have n: "if_price None = None"
    and y: "if_price (Some (Float 123456 (-3))) = Some (Float 123456 (-3))"
    by (simp_all add: if_price_def float_truthy_def)
  note e = sample_nothing_sent
  note all = orders_carry_adjusted_values [OF sample_quantity]
  have market: "sent_field ''quantity'' (snd (place_market_order sample_bot ''BTCUSDT'' BUY
      (Float 19 (-4)) False)) = [Some (JFloat (Float 1 (-3)))]"
    using all [THEN conjunct1, of BUY False]
    by (auto simp add: sent_field_def e)
  have limit: "sent_field ''price'' (snd (place_limit_order sample_bot ''BTCUSDT'' BUY (Float 19 (-4))
        (Float 123456 (-3)) ''GTC'' False)) = [Some (JFloat (Float 1234 (-1)))]"
    using all [THEN conjunct2, THEN conjunct1, THEN mp, OF sample_price, of BUY "''GTC''" False]
    by (auto simp add: sent_field_def e)
  have stop_limit: "sent_field ''stopPrice'' (snd (place_stop_limit_order sample_bot ''BTCUSDT'' BUY
        (Float 19 (-4)) (Float 123456 (-3)) (Float 123456 (-3)) ''GTC'' False))
      = [Some (JFloat (Float 1234 (-1)))]"
    using all [THEN conjunct2, THEN conjunct2, THEN conjunct1, THEN mp,
        OF conjI, OF sample_price sample_price, of BUY "''GTC''" False]
    by (auto simp add: sent_field_def e)
  have stop_market: "sent_field ''stopPrice'' (snd (place_stop_market_order sample_bot ''BTCUSDT'' BUY
        (Float 19 (-4)) (Float 123456 (-3)) False)) = [Some (JFloat (Float 1234 (-1)))]"
    using all [THEN conjunct2, THEN conjunct2, THEN conjunct2, THEN conjunct1, THEN mp,
        OF sample_price, of BUY False]
    by (auto simp add: sent_field_def e)
  have tp_market: "sent_field ''price'' (snd (place_take_profit_order sample_bot ''BTCUSDT'' BUY
        (Float 19 (-4)) (Float 123456 (-3)) None True)) = [None]"
    using all [THEN conjunct2, THEN conjunct2, THEN conjunct2, THEN conjunct2, THEN conjunct1,
        THEN mp, OF conjI, OF sample_price n, of BUY True]
    by (auto simp add: sent_field_def e)
  have tp_limit: "sent_field ''price'' (snd (place_take_profit_order sample_bot ''BTCUSDT'' BUY
        (Float 19 (-4)) (Float 123456 (-3)) (Some (Float 123456 (-3))) True))
      = [Some (JFloat (Float 1234 (-1)))]"
    using all [THEN conjunct2, THEN conjunct2, THEN conjunct2, THEN conjunct2, THEN conjunct2,
        THEN conjunct1, THEN mp, OF conjI, OF sample_price conjI, OF y sample_price, of BUY True]
    by (auto simp add: sent_field_def e)
  have turned_down: "fst (place_limit_order sample_bot ''BTCUSDT'' BUY (Float 19 (-4)) (Float 995 (-1))
        ''GTC'' False)
      = Inl (ValueError [Lit ''Price '', Num (Float 995 (-1)), Lit '' below minimum '',
          Num (Float 100 0)])
    \<and> orders_sent (snd (place_limit_order sample_bot ''BTCUSDT'' BUY (Float 19 (-4)) (Float 995 (-1))
        ''GTC'' False)) = []"
    using all [THEN conjunct2, THEN conjunct1, THEN mp, OF sample_low_price, of BUY "''GTC''" False]
    by (auto simp add: e)
  have low: "float_lt (Float 5 (-4)) (Float 1 (-3))"
    and plow: "float_lt (Float 995 (-1)) (Float 100 0)"
    and t: "float_truthy (Float 995 (-1))"
    by (simp_all add: float_lt_def float_val_def float_truthy_def)
  note small = orders_carry_adjusted_values [OF sample_small_quantity,
      THEN conjunct2, THEN conjunct2, THEN conjunct2, THEN conjunct2, THEN conjunct2, THEN conjunct2,
      THEN conjunct1, THEN mp, OF conjI, OF sample_btc_info conjI, OF btc_filters conjI,
      OF btc_lot_found conjI, OF btc_lot_bounds disjI1, OF low]
  note cheap = all [THEN conjunct2, THEN conjunct2, THEN conjunct2, THEN conjunct2, THEN conjunct2,
      THEN conjunct2, THEN conjunct2, THEN mp, OF conjI, OF sample_btc_info conjI,
      OF btc_filters conjI, OF btc_price_found conjI, OF btc_price_bounds disjI1, OF plow]
  have small_market:
    "refused sample_bot (place_market_order sample_bot ''BTCUSDT'' BUY (Float 5 (-4)) False)"
    by (rule small [THEN conjunct1])
  have small_tp: "refused sample_bot (place_take_profit_order sample_bot ''BTCUSDT'' SELL
      (Float 5 (-4)) (Float 123456 (-3)) None True)"
    by (rule small [THEN conjunct2, THEN conjunct2, THEN conjunct2, THEN conjunct2])
  have cheap_stop: "refused sample_bot (place_stop_market_order sample_bot ''BTCUSDT'' SELL
      (Float 19 (-4)) (Float 995 (-1)) True)"
    by (rule cheap [THEN conjunct2, THEN conjunct2, THEN conjunct2, THEN conjunct1])
  have cheap_tp: "refused sample_bot (place_take_profit_order sample_bot ''BTCUSDT'' SELL
      (Float 19 (-4)) (Float 123456 (-3)) (Some (Float 995 (-1))) True)"
    by (rule cheap [THEN conjunct2, THEN conjunct2, THEN conjunct2, THEN conjunct2, THEN conjunct2,
        THEN mp, OF t])
  show ?thesis
    using market limit stop_limit stop_market tp_market tp_limit turned_down low plow
      small_market small_tp cheap_stop cheap_tp
    by simp
qed

section \<open>Positions\<close>

lemma amount_nonzero_iff:
  "bind_err (getitem pos ''positionAmt'') py_float = Inr x \<Longrightarrow> amount_nonzero pos = float_truthy x"
  by (simp add: amount_nonzero_def)

lemma active_positions_exact:
  "active_positions ps = Inr res \<Longrightarrow>
     map position_entry (filter amount_nonzero ps) = map Inr res"
proof (induction ps arbitrary: res)
  case Nil
  then show ?case by simp
next
  case (Cons pos ps)
  obtain x where x: "bind_err (getitem pos ''positionAmt'') py_float = Inr x"
    using Cons.prems by (cases "bind_err (getitem pos ''positionAmt'') py_float")
      (simp_all add: bind_err_def)
  show ?case
  proof (cases "float_truthy x")
    case True
    then obtain entry entries where e: "position_entry pos = Inr entry"
      and r: "active_positions ps = Inr entries" and res: "res = entry # entries"
      using Cons.prems x
      by (auto simp add: bind_err_def [of "position_entry pos"]
          bind_err_def [of "active_positions ps"] bind_err_def [of "Inr x"] split: sum.splits)
    show ?thesis
      using Cons.IH [OF r] True e res by (simp add: amount_nonzero_iff [OF x])
  next
    case False
    then have "active_positions ps = Inr res"
      using Cons.prems x by (simp add: bind_err_def [of "Inr x"])
    then show ?thesis
      using Cons.IH False by (simp add: amount_nonzero_iff [OF x])
  qed
qed

lemma position_entry_amount:
  assumes "position_entry pos = Inr r"
  shows "\<exists>x. bind_err (getitem pos ''positionAmt'') py_float = Inr x
    \<and> r ''position_amount'' = Some (JFloat x) \<and> r ''symbol'' = pos ''symbol''"
  using assms
  by (auto simp add: position_entry_def bind_err_def getitem_def split: sum.splits option.splits)

lemma active_positions_total:
  "\<forall>p\<in>set ps. \<exists>r. position_entry p = Inr r \<Longrightarrow> \<exists>res. active_positions ps = Inr res"
proof (induction ps)
  case Nil
  then show ?case by simp
next
  case (Cons pos ps)
  then obtain r res where r: "position_entry pos = Inr r" and res: "active_positions ps = Inr res"
    by auto
  obtain x where "bind_err (getitem pos ''positionAmt'') py_float = Inr x"
    using position_entry_amount [OF r] by blast
  then show ?case
    using r res by (simp add: bind_err_def)
qed

lemma filter_symbol_exact:
  "filter_symbol s ps = Inr sel \<Longrightarrow> sel = filter (\<lambda>p. p ''symbol'' = Some (JStr s)) ps"
proof (induction ps arbitrary: sel)
  case Nil
  then show ?case by simp
next
  case (Cons p ps)
  then show ?case
    by (auto simp add: bind_err_def getitem_def split: sum.splits option.splits if_splits)
qed

lemma filter_symbol_total:
  "\<forall>p\<in>set ps. \<exists>r. position_entry p = Inr r \<Longrightarrow> \<exists>sel. filter_symbol s ps = Inr sel"
proof (induction ps)
  case Nil
  then show ?case by simp
next
  case (Cons p ps)
  then obtain r sel where r: "position_entry p = Inr r" and sel: "filter_symbol s ps = Inr sel"
    by auto
  have "\<exists>v. getitem p ''symbol'' = Inr v"
    using r by (auto simp add: position_entry_def bind_err_def split: sum.splits)
  then show ?case
    using sel by (auto simp add: bind_err_def)
qed

lemma selected_positions:
  "(case symbol of None \<Rightarrow> Inr ps | Some s \<Rightarrow> if s \<noteq> [] then filter_symbol s ps else Inr ps) = Inr sel
     \<Longrightarrow> sel = select_symbol symbol ps"
  by (auto simp add: select_symbol_def filter_symbol_exact split: option.splits if_splits)

text \<open>
  C9. When \<^verbatim>\<open>get_positions\<close> returns, the list returned consists of the entries built
  from exactly those records looked at whose \<^verbatim>\<open>positionAmt\<close> reads as a number other
  than zero, in their order, each with that number as its \<^verbatim>\<open>position_amount\<close>; and it
  does return when every record has the fields an entry is built from. The records
  looked at are all those the exchange lists, or those of the symbol asked for.
\<close>

theorem positions_are_the_nonzero_records:
  assumes "futures_position_information (bot_client b) (calls b) = Inr ps"
  shows "(fst (get_positions b symbol) = Inr res \<longrightarrow>
            map position_entry (filter amount_nonzero (select_symbol symbol ps)) = map Inr res
            \<and> list_all2 (\<lambda>pos r. \<exists>x. bind_err (getitem pos ''positionAmt'') py_float = Inr x
                  \<and> float_truthy x \<and> r ''position_amount'' = Some (JFloat x))
                (filter amount_nonzero (select_symbol symbol ps)) res)
       \<and> ((\<forall>p\<in>set ps. \<exists>r. position_entry p = Inr r) \<longrightarrow>
            (\<exists>entries. fst (get_positions b symbol) = Inr entries))"
proof (intro conjI impI)
  assume g: "fst (get_positions b symbol) = Inr res"
  then obtain sel where sel: "(case symbol of None \<Rightarrow> Inr ps
        | Some s \<Rightarrow> if s \<noteq> [] then filter_symbol s ps else Inr ps) = Inr sel"
    and act: "active_positions sel = Inr res"
    by (auto simp add: get_positions_def assms bind_err_def split: sum.splits)
  have s: "sel = select_symbol symbol ps"
    by (rule selected_positions [OF sel])
  show m: "map position_entry (filter amount_nonzero (select_symbol symbol ps)) = map Inr res"
    using active_positions_exact [OF act] s by simp
  show "list_all2 (\<lambda>pos r. \<exists>x. bind_err (getitem pos ''positionAmt'') py_float = Inr x
          \<and> float_truthy x \<and> r ''position_amount'' = Some (JFloat x))
        (filter amount_nonzero (select_symbol symbol ps)) res"
  proof (rule list_all2_all_nthI)
    show "length (filter amount_nonzero (select_symbol symbol ps)) = length res"
      using m by (metis length_map)
  next
    fix n assume n: "n < length (filter amount_nonzero (select_symbol symbol ps))"
    let ?pos = "filter amount_nonzero (select_symbol symbol ps) ! n"
    have "n < length res" using m n by (metis length_map)
    then have e: "position_entry ?pos = Inr (res ! n)"
      using m n by (metis nth_map)
    have nz: "amount_nonzero ?pos"
      using n nth_mem by fastforce
    obtain x where x: "bind_err (getitem ?pos ''positionAmt'') py_float = Inr x"
      and a: "(res ! n) ''position_amount'' = Some (JFloat x)"
      using position_entry_amount [OF e] by blast
    show "\<exists>x. bind_err (getitem ?pos ''positionAmt'') py_float = Inr x
        \<and> float_truthy x \<and> (res ! n) ''position_amount'' = Some (JFloat x)"
      using x a nz by (auto simp add: amount_nonzero_iff [OF x])
  qed
next
  assume wf: "\<forall>p\<in>set ps. \<exists>r. position_entry p = Inr r"
  have "\<forall>p\<in>set (select_symbol symbol ps). \<exists>r. position_entry p = Inr r"
    using wf by (auto simp add: select_symbol_def split: option.splits)
  then obtain entries where a: "active_positions (select_symbol symbol ps) = Inr entries"
    using active_positions_total by blast
  have "\<exists>sel. (case symbol of None \<Rightarrow> Inr ps
        | Some s \<Rightarrow> if s \<noteq> [] then filter_symbol s ps else Inr ps) = Inr sel"
    using filter_symbol_total [OF wf] by (simp split: option.splits)
  then obtain sel where sel: "(case symbol of None \<Rightarrow> Inr ps
        | Some s \<Rightarrow> if s \<noteq> [] then filter_symbol s ps else Inr ps) = Inr sel"
    by blast
  have "sel = select_symbol symbol ps"
    by (rule selected_positions [OF sel])
  then show "\<exists>entries. fst (get_positions b symbol) = Inr entries"
    using a sel by (simp add: get_positions_def assms bind_err_def)
qed

theorem positions_are_the_nonzero_records_witness:
  "\<not> amount_nonzero flat_position \<and> amount_nonzero short_position
   \<and> (\<exists>r. fst (get_positions sample_bot None) = Inr [r]
        \<and> position_entry short_position = Inr r
        \<and> r ''position_amount'' = Some (JFloat (Float (-5) (-1)))
        \<and> float_val (Float (-5) (-1)) = - (1 / 2))"
proof -
  have ps: "futures_position_information (bot_client sample_bot) (calls sample_bot)
      = Inr [flat_position, short_position]"
    by (simp add: sample_bot_def sample_client_def)
  have z: "\<not> amount_nonzero flat_position" and nz: "amount_nonzero short_position"
    by (simp_all add: amount_nonzero_iff [OF flat_amount] amount_nonzero_iff [OF short_amount]
        float_truthy_def)
  have wf: "\<forall>p\<in>set [flat_position, short_position]. \<exists>r. position_entry p = Inr r"
    using flat_entry short_entry by simp
  note all = positions_are_the_nonzero_records [OF ps, of None]
  obtain entries where g: "fst (get_positions sample_bot None) = Inr entries"
    using all [THEN conjunct2, THEN mp, OF wf] by blast
  have "map position_entry (filter amount_nonzero (select_symbol None [flat_position, short_position]))
      = map Inr entries"
    and l: "list_all2 (\<lambda>pos r. \<exists>x. bind_err (getitem pos ''positionAmt'') py_float = Inr x
          \<and> float_truthy x \<and> r ''position_amount'' = Some (JFloat x))
        (filter amount_nonzero (select_symbol None [flat_position, short_position])) entries"
    using all [THEN conjunct1, THEN mp, OF g] by blast+
  then have m: "[position_entry short_position] = map Inr entries"
    using z nz by (simp add: select_symbol_def)
  then obtain r where r: "entries = [r]" and e: "position_entry short_position = Inr r"
    by (cases entries) auto
  have "r ''position_amount'' = Some (JFloat (Float (-5) (-1)))"
    using l z nz r short_amount by (simp add: select_symbol_def)
  then show ?thesis
    using z nz g r e by (simp add: float_val_def)
qed

end
